theory Spec2Isabelle
  imports Main "HOL-Library.Word"
begin

section \<open>Dynamic strings and the one-line output format\<close>

text \<open>
  A \<^verbatim>\<open>struct ds\<close> is a buffer with a length; it is a \<^typ>\<open>string\<close> here and its
  \<^verbatim>\<open>length\<close> field is the length of the list. The three helpers below are the ones
  \<^verbatim>\<open>oneline_format\<close> calls: \<^verbatim>\<open>ds_chomp\<close> drops the last character when it is the given
  one, \<^verbatim>\<open>ds_put_char\<close> and \<^verbatim>\<open>ds_put_cstr\<close> append.
\<close>

abbreviation newline :: char where
  "newline \<equiv> CHR 0x0A"

abbreviation backslash :: char where
  "backslash \<equiv> CHR 0x5C"

definition ds_chomp :: "string \<Rightarrow> char \<Rightarrow> string" where
  "ds_chomp ds c =
     (if 0 < length ds \<and> ds ! (length ds - 1) = c then take (length ds - 1) ds else ds)"

definition ds_put_char :: "string \<Rightarrow> char \<Rightarrow> string" where
  "ds_put_char s c = s @ [c]"

definition ds_put_cstr :: "string \<Rightarrow> string \<Rightarrow> string" where
  "ds_put_cstr s t = s @ t"

text \<open>
  The body of the \<^verbatim>\<open>for (j = 0; j < lines->length; j++)\<close> loop of \<^verbatim>\<open>oneline_format\<close>,
  from index \<open>j\<close> on, with the \<^verbatim>\<open>switch (ch)\<close> written as a chain of tests.
\<close>

function oneline_format_loop :: "string \<Rightarrow> nat \<Rightarrow> string \<Rightarrow> string" where
  "oneline_format_loop lines j s =
     (if j < length lines then
        (let ch = lines ! j in
         oneline_format_loop lines (Suc j)
           (if ch = newline then ds_put_cstr s [backslash, CHR ''n'']
            else if ch = backslash then ds_put_cstr s [backslash, backslash]
            else ds_put_char s ch))
      else s)"
  by pat_completeness auto
termination
  by (relation "measure (\<lambda>(lines, j, s). length lines - j)") auto

declare oneline_format_loop.simps [simp del]

text \<open>
  \<^verbatim>\<open>oneline_format (lines, s)\<close> changes both of its arguments: \<open>lines\<close> loses its trailing
  newline and \<open>s\<close> receives the rendering. The pair returned is the new \<open>(lines, s)\<close>.
\<close>

definition oneline_format :: "string \<Rightarrow> string \<Rightarrow> string \<times> string" where
  "oneline_format lines s =
     (let lines1 = ds_chomp lines newline;
          s1 = oneline_format_loop lines1 0 s
      in (lines1, ds_put_char s1 newline))"

text \<open>
  The rendering as the specification words it: the trailing newline removed, each
  character escaped on its own, one newline appended.
\<close>

definition oneline_escape :: "char \<Rightarrow> string" where
  "oneline_escape c =
     (if c = newline then [backslash, CHR ''n'']
      else if c = backslash then [backslash, backslash]
      else [c])"

definition without_trailing_newline :: "string \<Rightarrow> string" where
  "without_trailing_newline xs =
     (case rev xs of [] \<Rightarrow> [] | c # r \<Rightarrow> if c = newline then rev r else xs)"

definition oneline_rendering :: "string \<Rightarrow> string" where
  "oneline_rendering xs = concat (map oneline_escape (without_trailing_newline xs)) @ [newline]"

section \<open>The database connection as the client sees it\<close>

text \<open>
  \<^verbatim>\<open>ovn-nbctl\<close> talks to the northbound database through the OVSDB IDL library, which is not
  part of this program. The model keeps the library at arm's length: the IDL is the list of
  the calls the program has made on it so far, and whatever the library answers is a function
  of that list, collected in an environment \<open>E\<close>. Every property below holds for every
  environment, that is for every database, server and clock that behaves deterministically.
\<close>

datatype nbctl_wait_type = NBCTL_WAIT_NONE | NBCTL_WAIT_SB | NBCTL_WAIT_HV

datatype ovsdb_idl_txn_status =
    TXN_UNCOMMITTED | TXN_UNCHANGED | TXN_INCOMPLETE | TXN_ABORTED
  | TXN_SUCCESS | TXN_TRY_AGAIN | TXN_NOT_LOCKED | TXN_ERROR

datatype vlog_level = VLL_OFF | VLL_EMER | VLL_ERR | VLL_WARN | VLL_INFO | VLL_DBG

text \<open>A row of the \<^verbatim>\<open>NB_Global\<close> table: the three generation counters, each an \<^verbatim>\<open>int64_t\<close>.\<close>

record nbrec_nb_global =
  nb_cfg :: "64 word"
  sb_cfg :: "64 word"
  hv_cfg :: "64 word"

datatype nb_global_column = NB_GLOBAL_COL_NB_CFG | NB_GLOBAL_COL_SB_CFG | NB_GLOBAL_COL_HV_CFG

text \<open>
  The row \<^verbatim>\<open>nb\<close> of \<^verbatim>\<open>do_nbctl\<close> is either a row of the snapshot or the row the transaction
  has just inserted.
\<close>

datatype nb_global_row = ROW_OF_SNAPSHOT nbrec_nb_global | ROW_INSERTED

text \<open>
  A transaction holds what the client has asked for and not yet sent: the dry-run mark, the
  comment, the row operations in the order they were made (those of the commands are of an
  arbitrary type \<open>'m\<close>), and the increment request with its row, column and \<^verbatim>\<open>force\<close> flag.
\<close>

datatype 'm txn_op = INSERT_NB_GLOBAL | COMMAND_OP 'm

record 'm ovsdb_idl_txn =
  txn_dry_run :: bool
  txn_comment :: string
  txn_ops :: "'m txn_op list"
  txn_increment :: "(nb_global_row \<times> nb_global_column \<times> bool) option"

text \<open>The calls on the IDL, its transactions and the poll loop that \<^verbatim>\<open>ovn-nbctl\<close> makes.\<close>

datatype 'm idl_call =
    IDL_ADD_TABLE_NB_GLOBAL | IDL_ADD_COLUMN nb_global_column
  | IDL_RUN | IDL_WAIT | IDL_ENABLE_RECONNECT | POLL_BLOCK | TIMER_WAIT
  | TXN_CREATE | TXN_COMMIT_BLOCK "'m ovsdb_idl_txn" | TXN_ABORT | TXN_DESTROY

text \<open>
  A \<^verbatim>\<open>struct timer\<close> is a deadline on the environment's clock. The model keeps what the
  deadline was computed from: how far the run had got when \<^verbatim>\<open>timer_set_duration\<close> was
  called, and the duration in milliseconds. Whether it has expired is for \<open>E\<close> to say.
\<close>

record timer =
  timer_set_at :: nat
  timer_duration :: "64 word"

record ('m, 't, 's) ovsdb_env =
  ovsdb_idl_get_seqno :: "'m idl_call list \<Rightarrow> 32 word"
  ovsdb_idl_has_ever_connected :: "'m idl_call list \<Rightarrow> bool"
  ovsdb_idl_is_alive :: "'m idl_call list \<Rightarrow> bool"
  ovsdb_idl_get_last_error :: "'m idl_call list \<Rightarrow> int"
  ovs_retval_to_string :: "int \<Rightarrow> string"
  nbrec_nb_global_rows :: "'m idl_call list \<Rightarrow> nbrec_nb_global list"
  ovsdb_idl_txn_commit_status :: "'m idl_call list \<Rightarrow> ovsdb_idl_txn_status"
  ovsdb_idl_txn_get_increment_new_value :: "'m idl_call list \<Rightarrow> 64 word"
  ovsdb_idl_txn_get_error :: "'m idl_call list \<Rightarrow> string"
  timer_expired :: "timer \<Rightarrow> 'm idl_call list \<Rightarrow> bool"
  table_print :: "'t \<Rightarrow> 's \<Rightarrow> string"
  table_style_default :: 's

text \<open>
  What the database holds is what has been committed to it: the operations of every
  transaction that was handed to \<^verbatim>\<open>ovsdb_idl_txn_commit_block\<close>, was not a dry run, and for
  which the library answered \<^verbatim>\<open>TXN_SUCCESS\<close>.
\<close>

fun committed_upto ::
  "('m, 't, 's) ovsdb_env \<Rightarrow> 'm idl_call list \<Rightarrow> 'm idl_call list \<Rightarrow> 'm txn_op list" where
  "committed_upto E before [] = []"
| "committed_upto E before (TXN_COMMIT_BLOCK txn # rest) =
     (if \<not> txn_dry_run txn
         \<and> ovsdb_idl_txn_commit_status E (before @ [TXN_COMMIT_BLOCK txn]) = TXN_SUCCESS
      then txn_ops txn else [])
     @ committed_upto E (before @ [TXN_COMMIT_BLOCK txn]) rest"
| "committed_upto E before (call # rest) = committed_upto E (before @ [call]) rest"

definition committed :: "('m, 't, 's) ovsdb_env \<Rightarrow> 'm idl_call list \<Rightarrow> 'm txn_op list" where
  "committed E idl = committed_upto E [] idl"




section \<open>Global state of the program\<close>

text \<open>
  The file-level variables of \<^verbatim>\<open>ovn-nbctl.c\<close> that the functions below read or write, the
  IDL (\<^verbatim>\<open>the_idl\<close>), and the two streams the program writes: standard output and the log.
  The last field is the logging configuration of the process. It is kept by the logging
  library; the program changes it only through the calls that the library's option handlers
  make for a logging option (\<^verbatim>\<open>vlog_set_verbosity\<close>, \<^verbatim>\<open>vlog_set_log_file\<close> and the like), so
  it is given by these calls, in order, each with the name of the option and its argument.
\<close>

record ('m, 's) nbctl =
  db :: string
  oneline :: bool
  dry_run :: bool
  wait_type :: nbctl_wait_type
  force_wait :: bool
  timeout :: "32 word"
  table_style :: 's
  the_idl :: "'m idl_call list"
  stdout :: string
  vlog :: "(vlog_level \<times> string) list"
  vlog_options :: "(string \<times> string option) list"

definition idl_call :: "'m idl_call \<Rightarrow> ('m, 's) nbctl \<Rightarrow> ('m, 's) nbctl" where
  "idl_call call g = g\<lparr>the_idl := the_idl g @ [call]\<rparr>"

definition fputs_stdout :: "string \<Rightarrow> ('m, 's) nbctl \<Rightarrow> ('m, 's) nbctl" where
  "fputs_stdout s g = g\<lparr>stdout := stdout g @ s\<rparr>"

definition VLOG :: "vlog_level \<Rightarrow> string \<Rightarrow> ('m, 's) nbctl \<Rightarrow> ('m, 's) nbctl" where
  "VLOG level msg g = g\<lparr>vlog := vlog g @ [(level, msg)]\<rparr>"

text \<open>
  A function of the program ends in one of three ways: it returns, it leaves through
  \<^verbatim>\<open>ctl_fatal\<close> with a message, or it stops at a failed assertion or \<^verbatim>\<open>OVS_NOT_REACHED\<close>.
  A function with a loop that may run for ever returns an \<^typ>\<open>'a option\<close> on top of that,
  \<^const>\<open>None\<close> standing for the run that never ends.
\<close>

datatype ('a, 'g) nbctl_outcome = RETURN 'a | EXIT string 'g | ABORT 'g


section \<open>Commands, contexts and symbols\<close>

record ovsdb_symbol =
  created :: bool
  strong_ref :: bool
  weak_ref :: bool

text \<open>
  The symbol table is a hash table from names to symbols; \<^verbatim>\<open>SHASH_FOR_EACH\<close> visits it in
  some order, which is the order of the list.
\<close>

type_synonym ovsdb_symbol_table = "(string \<times> ovsdb_symbol) list"

text \<open>
  A \<^verbatim>\<open>struct ctl_context\<close>. The transaction and the symbol table that \<^verbatim>\<open>ctx->txn\<close> and
  \<^verbatim>\<open>ctx->symtab\<close> point to are kept inside the record, so that a callback that changes
  them returns a context that holds them changed; both are \<^const>\<open>None\<close> for the null
  pointer that the prerequisite phase passes.
\<close>

record ('m, 't) ctl_context =
  ctx_argv :: "string list"
  ctx_options :: "(string \<times> string option) list"
  ctx_output :: string
  ctx_table :: "'t option"
  ctx_try_again :: bool
  ctx_error :: "string option"
  ctx_idl :: "'m idl_call list"
  ctx_txn :: "'m ovsdb_idl_txn option"
  ctx_symtab :: "ovsdb_symbol_table option"

datatype ctl_mode = RO | RW

text \<open>
  A \<^verbatim>\<open>struct ctl_command_syntax\<close> with its three callbacks, each optional. A \<^verbatim>\<open>run\<close> or
  \<^verbatim>\<open>postprocess\<close> callback works on the context it is given, and through it on the
  transaction and the symbol table; it reads the snapshot and never writes to it. A
  \<^verbatim>\<open>prerequisites\<close> callback may also write the program's global variables, as
  \<^verbatim>\<open>nbctl_pre_sync\<close> does.
\<close>

record ('m, 't, 's) ctl_command_syntax =
  syntax_name :: string
  min_args :: int
  max_args :: int
  prerequisites ::
    "(('m, 's) nbctl \<Rightarrow> ('m, 't) ctl_context \<Rightarrow> ('m, 's) nbctl \<times> ('m, 't) ctl_context) option"
  run :: "(('m, 't) ctl_context \<Rightarrow> ('m, 't) ctl_context) option"
  postprocess :: "(('m, 't) ctl_context \<Rightarrow> ('m, 't) ctl_context) option"
  mode :: ctl_mode

record ('m, 't, 's) ctl_command =
  cmd_syntax :: "('m, 't, 's) ctl_command_syntax"
  cmd_argv :: "string list"
  cmd_options :: "(string \<times> string option) list"
  cmd_output :: string
  cmd_table :: "'t option"

text \<open>
  The helpers of the command framework that \<^verbatim>\<open>do_nbctl\<close> and \<^verbatim>\<open>run_prerequisites\<close> call.
  \<^verbatim>\<open>ctl_context_init_command\<close> loads a command into the context and clears \<^verbatim>\<open>try_again\<close>
  and \<^verbatim>\<open>error\<close>; \<^verbatim>\<open>ctl_context_done_command\<close> hands the output and the table back to the
  command and frees the error. The two exchange the output buffers; the buffer left behind
  in the other structure is not read before the next exchange, so the model copies.
  \<^verbatim>\<open>ctl_context_done\<close> is \<^verbatim>\<open>ctl_context_done_command\<close> when it is given a command and
  changes nothing that the model holds when it is not.
\<close>

definition ctl_context_init_command ::
  "('m, 't) ctl_context \<Rightarrow> ('m, 't, 's) ctl_command \<Rightarrow> ('m, 't) ctl_context" where
  "ctl_context_init_command ctx command =
     ctx\<lparr>ctx_argv := cmd_argv command, ctx_options := cmd_options command,
         ctx_output := cmd_output command, ctx_table := cmd_table command,
         ctx_try_again := False, ctx_error := None\<rparr>"

definition ctl_context_init ::
  "('m, 't) ctl_context \<Rightarrow> ('m, 't, 's) ctl_command option \<Rightarrow> 'm idl_call list
   \<Rightarrow> 'm ovsdb_idl_txn option \<Rightarrow> ovsdb_symbol_table option \<Rightarrow> ('m, 't) ctl_context" where
  "ctl_context_init ctx command idl txn symtab =
     (let ctx1 = (case command of Some c \<Rightarrow> ctl_context_init_command ctx c | None \<Rightarrow> ctx)
      in ctx1\<lparr>ctx_idl := idl, ctx_txn := txn, ctx_symtab := symtab\<rparr>)"

definition ctl_context_done_command ::
  "('m, 't) ctl_context \<Rightarrow> ('m, 't, 's) ctl_command
   \<Rightarrow> ('m, 't) ctl_context \<times> ('m, 't, 's) ctl_command" where
  "ctl_context_done_command ctx command =
     (ctx\<lparr>ctx_error := None\<rparr>,
      command\<lparr>cmd_output := ctx_output ctx, cmd_table := ctx_table ctx\<rparr>)"

text \<open>
  The local variable \<^verbatim>\<open>struct ctl_context ctx\<close> before anything is stored in it. None of
  its fields is read before \<^verbatim>\<open>ctl_context_init\<close> or \<^verbatim>\<open>ctl_context_init_command\<close> has
  written it.
\<close>

definition ctx_uninitialized :: "('m, 't) ctl_context" where
  "ctx_uninitialized =
     \<lparr>ctx_argv = [], ctx_options = [], ctx_output = [], ctx_table = None,
      ctx_try_again = False, ctx_error = None, ctx_idl = [], ctx_txn = None,
      ctx_symtab = None\<rparr>"

definition ctl_might_write_to_db :: "('m, 't, 's) ctl_command list \<Rightarrow> bool" where
  "ctl_might_write_to_db commands = list_ex (\<lambda>c. mode (cmd_syntax c) = RW) commands"

section \<open>One attempt: \<^verbatim>\<open>do_nbctl\<close>\<close>

text \<open>
  The transaction as \<^verbatim>\<open>do_nbctl\<close> builds it before any command runs: created, marked as a
  dry run when \<^verbatim>\<open>dry_run\<close> is set, given its comment, given a new \<^verbatim>\<open>NB_Global\<close> row when
  the snapshot has none, and asked to increment \<^verbatim>\<open>nb_cfg\<close> of the row \<^verbatim>\<open>nb\<close> when a wait
  type is set.
\<close>

definition ovsdb_idl_txn_create :: "'m ovsdb_idl_txn" where
  "ovsdb_idl_txn_create =
     \<lparr>txn_dry_run = False, txn_comment = [], txn_ops = [], txn_increment = None\<rparr>"

definition nbrec_nb_global_first ::
  "('m, 't, 's) ovsdb_env \<Rightarrow> 'm idl_call list \<Rightarrow> nbrec_nb_global option" where
  "nbrec_nb_global_first E idl =
     (case nbrec_nb_global_rows E idl of [] \<Rightarrow> None | row # _ \<Rightarrow> Some row)"

definition do_nbctl_txn ::
  "('m, 't, 's) ovsdb_env \<Rightarrow> string \<Rightarrow> ('m, 's) nbctl \<Rightarrow> 'm ovsdb_idl_txn" where
  "do_nbctl_txn E args g =
     (let txn = ovsdb_idl_txn_create;
          txn1 = (if dry_run g then txn\<lparr>txn_dry_run := True\<rparr> else txn);
          txn2 = txn1\<lparr>txn_comment := txn_comment txn1 @ ''ovs-nbctl: '' @ args\<rparr>;
          (nb, txn3) =
            (case nbrec_nb_global_first E (the_idl g) of
               None \<Rightarrow> (ROW_INSERTED, txn2\<lparr>txn_ops := txn_ops txn2 @ [INSERT_NB_GLOBAL]\<rparr>)
             | Some row \<Rightarrow> (ROW_OF_SNAPSHOT row, txn2))
      in if wait_type g \<noteq> NBCTL_WAIT_NONE
         then txn3\<lparr>txn_increment := Some (nb, NB_GLOBAL_COL_NB_CFG, force_wait g)\<rparr>
         else txn3)"

text \<open>
  The loop over the commands that calls each \<^verbatim>\<open>run\<close> callback. It returns the error of
  the first command that reports one, or the request to try again of the first command that
  makes one, with the context and the commands as they are at that point.
\<close>

fun do_nbctl_run ::
  "('m, 't) ctl_context \<Rightarrow> ('m, 't, 's) ctl_command list
   \<Rightarrow> string option \<times> bool \<times> ('m, 't) ctl_context \<times> ('m, 't, 's) ctl_command list" where
  "do_nbctl_run ctx [] = (None, False, ctx, [])"
| "do_nbctl_run ctx (c # cs) =
     (let ctx1 = ctl_context_init_command ctx c;
          ctx2 = (case run (cmd_syntax c) of Some f \<Rightarrow> f ctx1 | None \<Rightarrow> ctx1)
      in if ctx_error ctx2 \<noteq> None then
           (let (ctx3, c1) = ctl_context_done_command ctx2 c
            in (ctx_error ctx2, False, ctx3, c1 # cs))
         else
           (let (ctx3, c1) = ctl_context_done_command ctx2 c
            in if ctx_try_again ctx3 then (None, True, ctx3, c1 # cs)
               else (let (error, try_again, ctx4, cs1) = do_nbctl_run ctx3 cs
                     in (error, try_again, ctx4, c1 # cs1))))"

text \<open>The pass over the symbol table, with its error and its two warnings.\<close>

definition never_created_error :: "string \<Rightarrow> string" where
  "never_created_error name =
     ''row id \"'' @ name @ ''\" is referenced but never created ''
     @ ''(e.g. with \"-- --id='' @ name @ '' create ...\")''"

definition no_reference_warning :: "string \<Rightarrow> string" where
  "no_reference_warning name =
     ''row id \"'' @ name @ ''\" was created but no reference to it ''
     @ ''was inserted, so it will not actually appear in the database''"

definition weak_reference_warning :: "string \<Rightarrow> string" where
  "weak_reference_warning name =
     ''row id \"'' @ name @ ''\" was created but only a weak ''
     @ ''reference to it was inserted, so it will not ''
     @ ''actually appear in the database''"

fun do_nbctl_symbols ::
  "ovsdb_symbol_table \<Rightarrow> ('m, 's) nbctl \<Rightarrow> string option \<times> ('m, 's) nbctl" where
  "do_nbctl_symbols [] g = (None, g)"
| "do_nbctl_symbols ((name, symbol) # rest) g =
     (if \<not> created symbol then (Some (never_created_error name), g)
      else if \<not> strong_ref symbol then
        (if \<not> weak_ref symbol
         then do_nbctl_symbols rest (VLOG VLL_WARN (no_reference_warning name) g)
         else do_nbctl_symbols rest (VLOG VLL_WARN (weak_reference_warning name) g))
      else do_nbctl_symbols rest g)"

text \<open>The loop over the commands that calls each \<^verbatim>\<open>postprocess\<close> callback.\<close>

fun do_nbctl_postprocess ::
  "('m, 't) ctl_context \<Rightarrow> 'm idl_call list \<Rightarrow> 'm ovsdb_idl_txn \<Rightarrow> ovsdb_symbol_table
   \<Rightarrow> ('m, 't, 's) ctl_command list
   \<Rightarrow> string option \<times> ('m, 't) ctl_context \<times> ('m, 't, 's) ctl_command list" where
  "do_nbctl_postprocess ctx idl txn symtab [] = (None, ctx, [])"
| "do_nbctl_postprocess ctx idl txn symtab (c # cs) =
     (case postprocess (cmd_syntax c) of
        Some f \<Rightarrow>
          (let ctx1 = ctl_context_init ctx (Some c) idl (Some txn) (Some symtab);
               ctx2 = f ctx1
           in if ctx_error ctx2 \<noteq> None then
                (let (ctx3, c1) = ctl_context_done_command ctx2 c
                 in (ctx_error ctx2, ctx3, c1 # cs))
              else
                (let (ctx3, c1) = ctl_context_done_command ctx2 c;
                     (error, ctx4, cs1) =
                       do_nbctl_postprocess ctx3 idl (the (ctx_txn ctx3)) (the (ctx_symtab ctx3)) cs
                 in (error, ctx4, c1 # cs1)))
      | None \<Rightarrow>
          (let (error, ctx1, cs1) = do_nbctl_postprocess ctx idl txn symtab cs
           in (error, ctx1, c # cs1)))"

text \<open>
  The loop that prints the output of each command. \<^verbatim>\<open>oneline_print\<close> goes through
  \<^verbatim>\<open>oneline_format\<close>, which also removes the trailing newline of the command's own buffer.
\<close>

definition oneline_print :: "string \<Rightarrow> ('m, 's) nbctl \<Rightarrow> string \<times> ('m, 's) nbctl" where
  "oneline_print lines g =
     (let (lines1, s) = oneline_format lines [] in (lines1, fputs_stdout s g))"

fun do_nbctl_print ::
  "('m, 't, 's) ovsdb_env \<Rightarrow> ('m, 't, 's) ctl_command list \<Rightarrow> ('m, 's) nbctl
   \<Rightarrow> ('m, 't, 's) ctl_command list \<times> ('m, 's) nbctl" where
  "do_nbctl_print E [] g = ([], g)"
| "do_nbctl_print E (c # cs) g =
     (let (c1, g1) =
            (case cmd_table c of
               Some t \<Rightarrow> (c, fputs_stdout (table_print E t (table_style g)) g)
             | None \<Rightarrow>
                 if oneline g
                 then (let (ds, g') = oneline_print (cmd_output c) g in (c\<lparr>cmd_output := ds\<rparr>, g'))
                 else (c, fputs_stdout (cmd_output c) g));
          (cs1, g2) = do_nbctl_print E cs g1
      in (c1 # cs1, g2))"

text \<open>
  What \<^verbatim>\<open>do_nbctl\<close> gives back: the error string it returns, what it stored in \<^verbatim>\<open>*retry\<close>
  (\<^const>\<open>None\<close> when it stored nothing), and the commands and the global state as it leaves
  them.
\<close>

record ('m, 't, 's) do_nbctl_ret =
  ret_error :: "string option"
  ret_retry :: "bool option"
  ret_commands :: "('m, 't, 's) ctl_command list"
  ret_nbctl :: "('m, 's) nbctl"

text \<open>
  The two exits. The labels \<^verbatim>\<open>try_again\<close> and \<^verbatim>\<open>out_error\<close> share their code: the transaction
  is aborted and destroyed and the outputs of the commands are thrown away; \<^verbatim>\<open>try_again\<close>
  stores \<^verbatim>\<open>true\<close> in \<^verbatim>\<open>*retry\<close> first. The normal exit destroys the transaction and stores
  \<^verbatim>\<open>false\<close>.
\<close>

definition do_nbctl_out_error ::
  "string option \<Rightarrow> bool option \<Rightarrow> ('m, 't, 's) ctl_command list \<Rightarrow> ('m, 's) nbctl
   \<Rightarrow> ('m, 't, 's) do_nbctl_ret" where
  "do_nbctl_out_error error retry commands g =
     \<lparr>ret_error = error, ret_retry = retry,
      ret_commands = map (\<lambda>c. c\<lparr>cmd_output := [], cmd_table := None\<rparr>) commands,
      ret_nbctl = idl_call TXN_DESTROY (idl_call TXN_ABORT g)\<rparr>"

definition do_nbctl_done ::
  "('m, 't, 's) ctl_command list \<Rightarrow> ('m, 's) nbctl \<Rightarrow> ('m, 't, 's) do_nbctl_ret" where
  "do_nbctl_done commands g =
     \<lparr>ret_error = None, ret_retry = Some False, ret_commands = commands,
      ret_nbctl = idl_call TXN_DESTROY g\<rparr>"

text \<open>
  The loop that waits for the southbound database or the hypervisors to catch up. It
  returns \<^const>\<open>None\<close> for the error when a row has reached \<open>next_cfg\<close> (the label
  \<^verbatim>\<open>done\<close>) and the error when the timer has expired.
\<close>

definition cur_cfg :: "nbctl_wait_type \<Rightarrow> nbrec_nb_global \<Rightarrow> 64 word" where
  "cur_cfg w nb = (if w = NBCTL_WAIT_SB then sb_cfg nb else hv_cfg nb)"

partial_function (option) do_nbctl_wait ::
  "('m, 't, 's) ovsdb_env \<Rightarrow> timer option \<Rightarrow> 64 word \<Rightarrow> ('m, 's) nbctl
   \<Rightarrow> (string option \<times> ('m, 's) nbctl) option" where
  "do_nbctl_wait E wait_timeout next_cfg g =
     (let g1 = idl_call IDL_RUN g in
      if \<exists>nb \<in> set (nbrec_nb_global_rows E (the_idl g1)).
           word_sle next_cfg (cur_cfg (wait_type g1) nb)
      then Some (None, g1)
      else
        (let g2 = idl_call IDL_WAIT g1;
             g3 = (if wait_timeout \<noteq> None then idl_call TIMER_WAIT g2 else g2);
             g4 = idl_call POLL_BLOCK g3
         in if wait_timeout \<noteq> None \<and> timer_expired E (the wait_timeout) (the_idl g4)
            then Some (Some ''timeout expired'', g4)
            else do_nbctl_wait E wait_timeout next_cfg g4))"

declare do_nbctl_wait.simps [code]

text \<open>
  \<^verbatim>\<open>do_nbctl\<close> from the line after \<^verbatim>\<open>ovsdb_idl_txn_commit_block\<close> on, given the status the
  commit returned: the new value of the counter, the postprocess callbacks, the
  \<^verbatim>\<open>switch\<close> on the status, the output and the wait.
\<close>

definition do_nbctl_committed ::
  "('m, 't, 's) ovsdb_env \<Rightarrow> timer option \<Rightarrow> ovsdb_idl_txn_status \<Rightarrow> ('m, 't) ctl_context
   \<Rightarrow> 'm ovsdb_idl_txn \<Rightarrow> ovsdb_symbol_table \<Rightarrow> ('m, 't, 's) ctl_command list
   \<Rightarrow> ('m, 's) nbctl \<Rightarrow> (('m, 't, 's) do_nbctl_ret, ('m, 's) nbctl) nbctl_outcome option" where
  "do_nbctl_committed E wait_timeout status ctx txn symtab commands g =
     (let next_cfg =
            (if wait_type g \<noteq> NBCTL_WAIT_NONE \<and> status = TXN_SUCCESS
             then ovsdb_idl_txn_get_increment_new_value E (the_idl g) else 0);
          (error, ctx1, commands1) =
            (if status = TXN_UNCHANGED \<or> status = TXN_SUCCESS
             then do_nbctl_postprocess ctx (the_idl g) txn symtab commands
             else (None, ctx, commands))
      in if error \<noteq> None then Some (RETURN (do_nbctl_out_error error None commands1 g))
         else
           (case status of
              TXN_UNCOMMITTED \<Rightarrow> Some (ABORT g)
            | TXN_INCOMPLETE \<Rightarrow> Some (ABORT g)
            | TXN_ABORTED \<Rightarrow>
                Some (RETURN (do_nbctl_out_error (Some ''transaction aborted'') None commands1 g))
            | TXN_TRY_AGAIN \<Rightarrow>
                Some (RETURN (do_nbctl_out_error None (Some True) commands1 g))
            | TXN_ERROR \<Rightarrow>
                Some (RETURN (do_nbctl_out_error
                  (Some (''transaction error: '' @ ovsdb_idl_txn_get_error E (the_idl g)))
                  None commands1 g))
            | TXN_NOT_LOCKED \<Rightarrow>
                Some (RETURN (do_nbctl_out_error (Some ''database not locked'') None commands1 g))
            | _ \<Rightarrow>
                (let (commands2, g1) = do_nbctl_print E commands1 g
                 in if wait_type g1 \<noteq> NBCTL_WAIT_NONE \<and> status \<noteq> TXN_UNCHANGED then
                      (case do_nbctl_wait E wait_timeout next_cfg
                              (idl_call IDL_ENABLE_RECONNECT g1) of
                         None \<Rightarrow> None
                       | Some (Some e, g2) \<Rightarrow>
                           Some (RETURN (do_nbctl_out_error (Some e) None commands2 g2))
                       | Some (None, g2) \<Rightarrow> Some (RETURN (do_nbctl_done commands2 g2)))
                    else Some (RETURN (do_nbctl_done commands2 g1)))))"

text \<open>
  The start of \<^verbatim>\<open>do_nbctl\<close>: the output buffers of the commands are initialised, and the
  context is given the IDL, the new transaction and an empty symbol table.
\<close>

definition do_nbctl_reset :: "('m, 't, 's) ctl_command list \<Rightarrow> ('m, 't, 's) ctl_command list" where
  "do_nbctl_reset commands = map (\<lambda>c. c\<lparr>cmd_output := [], cmd_table := None\<rparr>) commands"

definition do_nbctl_ctx ::
  "('m, 't, 's) ovsdb_env \<Rightarrow> string \<Rightarrow> ('m, 's) nbctl \<Rightarrow> ('m, 't) ctl_context" where
  "do_nbctl_ctx E args g =
     (let txn = do_nbctl_txn E args g;
          symtab = []
      in ctl_context_init ctx_uninitialized (None :: ('m, 't, 's) ctl_command option)
           (the_idl g) (Some txn) (Some symtab))"

definition do_nbctl ::
  "('m, 't, 's) ovsdb_env \<Rightarrow> string \<Rightarrow> ('m, 't, 's) ctl_command list \<Rightarrow> timer option
   \<Rightarrow> ('m, 's) nbctl \<Rightarrow> (('m, 't, 's) do_nbctl_ret, ('m, 's) nbctl) nbctl_outcome option" where
  "do_nbctl E args commands wait_timeout g =
     (let g1 = idl_call TXN_CREATE g;
          ctx = do_nbctl_ctx E args g1;
          commands1 = do_nbctl_reset commands;
          (error, try_again, ctx1, commands2) = do_nbctl_run ctx commands1
      in if error \<noteq> None then Some (RETURN (do_nbctl_out_error error None commands2 g1))
         else if try_again
         then Some (RETURN (do_nbctl_out_error None (Some True) commands2 g1))
         else
           (let txn1 = the (ctx_txn ctx1);
                symtab1 = the (ctx_symtab ctx1);
                (error1, g2) = do_nbctl_symbols symtab1 g1
            in if error1 \<noteq> None
               then Some (RETURN (do_nbctl_out_error error1 None commands2 g2))
               else
                 (let g3 = idl_call (TXN_COMMIT_BLOCK txn1) g2;
                      status = ovsdb_idl_txn_commit_status E (the_idl g3)
                  in do_nbctl_committed E wait_timeout status ctx1 txn1 symtab1 commands2 g3)))"


section \<open>The retry loop: \<^verbatim>\<open>main_loop\<close>\<close>

text \<open>
  The end of the loop body: block until something happens, when the sequence number is
  still the one of the last attempt.
\<close>

definition main_loop_block ::
  "('m, 't, 's) ovsdb_env \<Rightarrow> 32 word \<Rightarrow> ('m, 's) nbctl \<Rightarrow> ('m, 's) nbctl" where
  "main_loop_block E seqno g =
     (if seqno = ovsdb_idl_get_seqno E (the_idl g)
      then idl_call POLL_BLOCK (idl_call IDL_WAIT g) else g)"

text \<open>
  One turn of the \<^verbatim>\<open>for (;;)\<close> loop, from the values of \<^verbatim>\<open>idl_ready\<close>, \<^verbatim>\<open>seqno\<close>, the
  commands and the global state at its start. It either leaves \<^verbatim>\<open>main_loop\<close> or gives the
  values for the next turn.
\<close>

datatype ('r, 'v) loop_step = BREAK 'r | CONTINUE 'v

type_synonym ('m, 't, 's) main_loop_vars =
  "bool \<times> 32 word \<times> ('m, 't, 's) ctl_command list \<times> ('m, 's) nbctl"

type_synonym ('m, 't, 's) main_loop_ret =
  "(string option \<times> ('m, 't, 's) ctl_command list \<times> ('m, 's) nbctl, ('m, 's) nbctl) nbctl_outcome"

definition main_loop_body ::
  "('m, 't, 's) ovsdb_env \<Rightarrow> string \<Rightarrow> timer option \<Rightarrow> ('m, 't, 's) main_loop_vars
   \<Rightarrow> (('m, 't, 's) main_loop_ret, ('m, 't, 's) main_loop_vars) loop_step option" where
  "main_loop_body E args wait_timeout vars =
     (case vars of (idl_ready, seqno, commands, g) \<Rightarrow>
        (let g1 = idl_call IDL_RUN g in
         if \<not> ovsdb_idl_is_alive E (the_idl g1) then
           Some (BREAK (EXIT (db g1 @ '': database connection failed (''
                   @ ovs_retval_to_string E (ovsdb_idl_get_last_error E (the_idl g1)) @ '')'') g1))
         else if idl_ready \<or> seqno \<noteq> ovsdb_idl_get_seqno E (the_idl g1) then
           (let seqno1 = ovsdb_idl_get_seqno E (the_idl g1) in
            case do_nbctl E args commands wait_timeout g1 of
              None \<Rightarrow> None
            | Some (ABORT g2) \<Rightarrow> Some (BREAK (ABORT g2))
            | Some (EXIT msg g2) \<Rightarrow> Some (BREAK (EXIT msg g2))
            | Some (RETURN r) \<Rightarrow>
                if ret_error r \<noteq> None
                then Some (BREAK (RETURN (ret_error r, ret_commands r, ret_nbctl r)))
                else if ret_retry r = Some False
                then Some (BREAK (RETURN (None, ret_commands r, ret_nbctl r)))
                else Some (CONTINUE (False, seqno1, ret_commands r,
                             main_loop_block E seqno1 (ret_nbctl r))))
         else Some (CONTINUE (idl_ready, seqno, commands, main_loop_block E seqno g1))))"

partial_function (option) main_loop_iter ::
  "('m, 't, 's) ovsdb_env \<Rightarrow> string \<Rightarrow> timer option \<Rightarrow> ('m, 't, 's) main_loop_vars
   \<Rightarrow> ('m, 't, 's) main_loop_ret option" where
  "main_loop_iter E args wait_timeout vars =
     (case main_loop_body E args wait_timeout vars of
        None \<Rightarrow> None
      | Some (BREAK r) \<Rightarrow> Some r
      | Some (CONTINUE vars1) \<Rightarrow> main_loop_iter E args wait_timeout vars1)"

declare main_loop_iter.simps [code]

definition main_loop ::
  "('m, 't, 's) ovsdb_env \<Rightarrow> string \<Rightarrow> ('m, 't, 's) ctl_command list \<Rightarrow> timer option
   \<Rightarrow> ('m, 's) nbctl \<Rightarrow> ('m, 't, 's) main_loop_ret option" where
  "main_loop E args commands wait_timeout g =
     (let seqno = ovsdb_idl_get_seqno E (the_idl g);
          idl_ready = ovsdb_idl_has_ever_connected E (the_idl g)
      in main_loop_iter E args wait_timeout (idl_ready, seqno, commands, g))"


section \<open>Prerequisites and the \<^verbatim>\<open>sync\<close> command\<close>

text \<open>
  The loop of \<^verbatim>\<open>run_prerequisites\<close> over the commands. A prerequisite callback gets a
  context with no transaction and no symbol table. The two assertions after the callback
  require that it has produced neither output nor a table.
\<close>

fun run_prerequisites_loop ::
  "('m, 't, 's) ctl_command list \<Rightarrow> ('m, 's) nbctl
   \<Rightarrow> (string option \<times> ('m, 't, 's) ctl_command list \<times> ('m, 's) nbctl, ('m, 's) nbctl) nbctl_outcome"
  where
  "run_prerequisites_loop [] g = RETURN (None, [], g)"
| "run_prerequisites_loop (c # cs) g =
     (case prerequisites (cmd_syntax c) of
        None \<Rightarrow>
          (case run_prerequisites_loop cs g of
             RETURN (error, cs1, g1) \<Rightarrow> RETURN (error, c # cs1, g1)
           | EXIT msg g1 \<Rightarrow> EXIT msg g1
           | ABORT g1 \<Rightarrow> ABORT g1)
      | Some f \<Rightarrow>
          (let c1 = c\<lparr>cmd_output := [], cmd_table := None\<rparr>;
               ctx = ctl_context_init ctx_uninitialized (Some c1) (the_idl g) None None;
               (g1, ctx1) = f g ctx
           in if ctx_error ctx1 \<noteq> None then
                (let (ctx2, c2) = ctl_context_done_command ctx1 c1
                 in RETURN (ctx_error ctx1, c2 # cs, g1))
              else
                (let (ctx2, c2) = ctl_context_done_command ctx1 c1
                 in if cmd_output c2 \<noteq> [] \<or> cmd_table c2 \<noteq> None then ABORT g1
                    else
                      (case run_prerequisites_loop cs g1 of
                         RETURN (error, cs1, g2) \<Rightarrow> RETURN (error, c2 # cs1, g2)
                       | EXIT msg g2 \<Rightarrow> EXIT msg g2
                       | ABORT g2 \<Rightarrow> ABORT g2))))"

definition run_prerequisites ::
  "('m, 't, 's) ctl_command list \<Rightarrow> ('m, 's) nbctl
   \<Rightarrow> (string option \<times> ('m, 't, 's) ctl_command list \<times> ('m, 's) nbctl, ('m, 's) nbctl) nbctl_outcome"
  where
  "run_prerequisites commands g =
     (let g1 = idl_call IDL_ADD_TABLE_NB_GLOBAL g;
          g2 = (if wait_type g1 = NBCTL_WAIT_SB then idl_call (IDL_ADD_COLUMN NB_GLOBAL_COL_SB_CFG) g1
                else if wait_type g1 = NBCTL_WAIT_HV
                then idl_call (IDL_ADD_COLUMN NB_GLOBAL_COL_HV_CFG) g1
                else g1)
      in run_prerequisites_loop commands g2)"






section \<open>The daemon: \<^verbatim>\<open>server_cmd_run\<close>\<close>

text \<open>
  What \<^verbatim>\<open>getopt_long\<close> returns at one call, sorted by what \<^verbatim>\<open>server_parse_options\<close> and
  \<^verbatim>\<open>handle_main_loop_option\<close> do with it: the five options of the main loop, a command's own
  option, a logging option, a table option, the two error codes, a flag that was stored, and
  anything else. With the code come \<^verbatim>\<open>optarg\<close>, the name of the long option, the text
  \<^verbatim>\<open>argv[optind-1]\<close>, \<^verbatim>\<open>optopt\<close>, and whether \<^verbatim>\<open>optopt\<close> is the value of a known option.
\<close>

datatype getopt_code =
    OPT_NO_WAIT | OPT_WAIT | OPT_DRY_RUN | OPT_ONELINE | OPT_TIMEOUT
  | OPT_LOCAL | OPT_VLOG | OPT_TABLE | OPT_UNKNOWN | OPT_MISSING | OPT_FLAG | OPT_OTHER char

record getopt_step =
  opt_code :: getopt_code
  opt_arg :: "string option"
  opt_name :: string
  opt_text :: string
  opt_optopt :: "char option"
  opt_optopt_known :: bool

text \<open>
  The command-line library: the scan of \<^verbatim>\<open>getopt_long\<close> over the request (the options in
  order and the arguments that are left), \<^verbatim>\<open>str_to_uint\<close> with the flag it returns and the
  number it stores, the effect of a table option on a table style, the command parser, and
  the two formatters.
\<close>

record ('m, 't, 's) cmdl_env =
  getopt_long :: "string list \<Rightarrow> getopt_step list \<times> string list"
  str_to_uint :: "string \<Rightarrow> bool \<times> 32 word"
  table_option :: "getopt_step \<Rightarrow> 's \<Rightarrow> 's"
  ctl_parse_commands ::
    "string list \<Rightarrow> (string \<times> string option) list \<Rightarrow> string + ('m, 't, 's) ctl_command list"
  process_escape_args :: "string list \<Rightarrow> string"
  table_format :: "'t \<Rightarrow> 's \<Rightarrow> string"

definition handle_main_loop_option ::
  "('m, 't, 's) cmdl_env \<Rightarrow> getopt_code \<Rightarrow> string option \<Rightarrow> ('m, 's) nbctl
   \<Rightarrow> string option \<times> bool \<times> ('m, 's) nbctl" where
  "handle_main_loop_option L opt arg g =
     (case opt of
        OPT_ONELINE \<Rightarrow> (None, True, g\<lparr>oneline := True\<rparr>)
      | OPT_NO_WAIT \<Rightarrow> (None, True, g\<lparr>wait_type := NBCTL_WAIT_NONE\<rparr>)
      | OPT_WAIT \<Rightarrow>
          if arg = Some ''none'' then (None, True, g\<lparr>wait_type := NBCTL_WAIT_NONE\<rparr>)
          else if arg = Some ''sb'' then (None, True, g\<lparr>wait_type := NBCTL_WAIT_SB\<rparr>)
          else if arg = Some ''hv'' then (None, True, g\<lparr>wait_type := NBCTL_WAIT_HV\<rparr>)
          else (Some ''argument to --wait must be \"none\", \"sb\", or \"hv\"'', True, g)
      | OPT_DRY_RUN \<Rightarrow> (None, True, g\<lparr>dry_run := True\<rparr>)
      | OPT_TIMEOUT \<Rightarrow>
          (let (ok, u) = str_to_uint L (the arg);
               g1 = g\<lparr>timeout := u\<rparr>
           in if \<not> ok \<or> timeout g1 = 0
              then (Some (''value '' @ the arg @ '' on -t or --timeout is invalid''), True, g1)
              else (None, True, g1))
      | _ \<Rightarrow> (None, False, g))"

definition add_local_option ::
  "string \<Rightarrow> string option \<Rightarrow> (string \<times> string option) list
   \<Rightarrow> string option \<times> (string \<times> string option) list" where
  "add_local_option name arg local_options =
     (let full_name = ''--'' @ name in
      if map_of local_options full_name \<noteq> None
      then (Some ([CHR 0x27] @ full_name @ [CHR 0x27] @ '' option specified multiple times''),
            local_options)
      else (None, local_options @ [(full_name, arg)]))"

fun server_parse_options ::
  "('m, 't, 's) cmdl_env \<Rightarrow> getopt_step list \<Rightarrow> (string \<times> string option) list
   \<Rightarrow> ('m, 's) nbctl \<Rightarrow> string option \<times> (string \<times> string option) list \<times> ('m, 's) nbctl" where
  "server_parse_options L [] local_options g = (None, local_options, g)"
| "server_parse_options L (step # rest) local_options g =
     (let (error, handled, g1) = handle_main_loop_option L (opt_code step) (opt_arg step) g
      in if error \<noteq> None then (error, local_options, g1)
         else if handled then server_parse_options L rest local_options g1
         else
           (case opt_code step of
              OPT_LOCAL \<Rightarrow>
                (let (error1, local_options1) =
                       add_local_option (opt_name step) (opt_arg step) local_options
                 in if error1 \<noteq> None then (error1, local_options1, g1)
                    else server_parse_options L rest local_options1 g1)
            | OPT_VLOG \<Rightarrow>
                server_parse_options L rest local_options
                  (g1\<lparr>vlog_options := vlog_options g1 @ [(opt_name step, opt_arg step)]\<rparr>)
            | OPT_TABLE \<Rightarrow>
                server_parse_options L rest local_options
                  (g1\<lparr>table_style := table_option L step (table_style g1)\<rparr>)
            | OPT_UNKNOWN \<Rightarrow>
                (if opt_optopt_known step
                 then (Some (''option '' @ [CHR 0x27] @ opt_text step @ [CHR 0x27]
                         @ '' doesn't allow an argument''), local_options, g1)
                 else if opt_optopt step \<noteq> None
                 then (Some (''unrecognized option '' @ [CHR 0x27, the (opt_optopt step), CHR 0x27]),
                       local_options, g1)
                 else (Some (''unrecognized option '' @ [CHR 0x27] @ opt_text step @ [CHR 0x27]),
                       local_options, g1))
            | OPT_MISSING \<Rightarrow>
                (Some (''option '' @ [CHR 0x27] @ opt_text step @ [CHR 0x27]
                   @ '' requires an argument''), local_options, g1)
            | OPT_FLAG \<Rightarrow> server_parse_options L rest local_options g1
            | OPT_OTHER c \<Rightarrow>
                (Some (''unhandled option '' @ [CHR 0x27, c, CHR 0x27]), local_options, g1)
            | _ \<Rightarrow> server_parse_options L rest local_options g1))"

text \<open>The loop of \<^verbatim>\<open>server_cmd_run\<close> that collects the output of the commands for the reply.\<close>

fun server_cmd_output ::
  "('m, 't, 's) cmdl_env \<Rightarrow> ('m, 't, 's) ctl_command list \<Rightarrow> ('m, 's) nbctl \<Rightarrow> string \<Rightarrow> string"
  where
  "server_cmd_output L [] g output = output"
| "server_cmd_output L (c # cs) g output =
     server_cmd_output L cs g
       (case cmd_table c of
          Some t \<Rightarrow> output @ table_format L t (table_style g)
        | None \<Rightarrow>
            if oneline g then snd (oneline_format (cmd_output c) output)
            else ds_put_cstr output (cmd_output c))"

datatype unixctl_reply = REPLY string | REPLY_ERROR string

definition timer_set_duration :: "('m, 's) nbctl \<Rightarrow> 64 word \<Rightarrow> timer" where
  "timer_set_duration g duration =
     \<lparr>timer_set_at = length (the_idl g), timer_duration = duration\<rparr>"

text \<open>The first statements of \<^verbatim>\<open>server_cmd_run\<close> after the copy of the arguments.\<close>

definition reset_global_state ::
  "('m, 't, 's) ovsdb_env \<Rightarrow> ('m, 's) nbctl \<Rightarrow> ('m, 's) nbctl" where
  "reset_global_state E g =
     g\<lparr>oneline := False, dry_run := False, wait_type := NBCTL_WAIT_NONE, force_wait := False,
       timeout := 0, table_style := table_style_default E\<rparr>"

text \<open>
  \<^verbatim>\<open>server_cmd_run\<close> answers one request of the daemon. The result is the reply that goes
  back on the connection and the global state that the request leaves behind. The function
  is given in two parts: \<^verbatim>\<open>server_cmd_run_commands\<close> is \<^verbatim>\<open>server_cmd_run\<close> from the call of
  \<^verbatim>\<open>ctl_parse_commands\<close> on, with the arguments as one string, the words that
  \<^verbatim>\<open>server_parse_options\<close> has left, the local options, and the global state as the parse of
  the options has left it.
\<close>

definition server_cmd_run_commands ::
  "('m, 't, 's) ovsdb_env \<Rightarrow> ('m, 't, 's) cmdl_env \<Rightarrow> string \<Rightarrow> string list
   \<Rightarrow> (string \<times> string option) list \<Rightarrow> ('m, 's) nbctl
   \<Rightarrow> (unixctl_reply \<times> ('m, 's) nbctl, ('m, 's) nbctl) nbctl_outcome option" where
  "server_cmd_run_commands E L args rest local_options g2 =
     (case ctl_parse_commands L rest local_options of
        Inl error1 \<Rightarrow> Some (RETURN (REPLY_ERROR error1, g2))
      | Inr commands \<Rightarrow>
          (let g3 = VLOG (if ctl_might_write_to_db commands then VLL_INFO else VLL_DBG)
                      (''Running command '' @ args) g2;
               wait_timeout =
                 (if timeout g3 \<noteq> 0
                  then Some (timer_set_duration g3 (ucast (timeout g3 * 1000)))
                  else None)
           in case run_prerequisites commands g3 of
                ABORT g4 \<Rightarrow> Some (ABORT g4)
              | EXIT msg g4 \<Rightarrow> Some (EXIT msg g4)
              | RETURN (Some error2, commands1, g4) \<Rightarrow>
                  Some (RETURN (REPLY_ERROR error2, g4))
              | RETURN (None, commands1, g4) \<Rightarrow>
                  (case main_loop E args commands1 wait_timeout g4 of
                     None \<Rightarrow> None
                   | Some (ABORT g5) \<Rightarrow> Some (ABORT g5)
                   | Some (EXIT msg g5) \<Rightarrow> Some (EXIT msg g5)
                   | Some (RETURN (Some error3, commands2, g5)) \<Rightarrow>
                       Some (RETURN (REPLY_ERROR error3, g5))
                   | Some (RETURN (None, commands2, g5)) \<Rightarrow>
                       Some (RETURN (REPLY (server_cmd_output L commands2 g5 []), g5)))))"

definition server_cmd_run ::
  "('m, 't, 's) ovsdb_env \<Rightarrow> ('m, 't, 's) cmdl_env \<Rightarrow> string list \<Rightarrow> ('m, 's) nbctl
   \<Rightarrow> (unixctl_reply \<times> ('m, 's) nbctl, ('m, 's) nbctl) nbctl_outcome option" where
  "server_cmd_run E L argv g =
     (let g1 = reset_global_state E g;
          args = process_escape_args L argv;
          (steps, rest) = getopt_long L argv;
          (error, local_options, g2) = server_parse_options L steps [] g1
      in if error \<noteq> None then Some (RETURN (REPLY_ERROR (the error), g2))
         else server_cmd_run_commands E L args rest local_options g2)"



section \<open>Observations on a run\<close>

text \<open>
  The definitions of this section are not part of the program; they name what the
  properties below speak about. The first gives the global state in which \<^verbatim>\<open>do_nbctl\<close>
  ends, the second the calls made on the IDL between two states of the same run, the third
  says that two states agree on the configuration variables.
\<close>

fun do_nbctl_state ::
  "(('m, 't, 's) do_nbctl_ret, ('m, 's) nbctl) nbctl_outcome \<Rightarrow> ('m, 's) nbctl" where
  "do_nbctl_state (RETURN r) = ret_nbctl r"
| "do_nbctl_state (EXIT msg g) = g"
| "do_nbctl_state (ABORT g) = g"

definition calls_since :: "('m, 's) nbctl \<Rightarrow> ('m, 's) nbctl \<Rightarrow> 'm idl_call list" where
  "calls_since g g1 = drop (length (the_idl g)) (the_idl g1)"

definition same_globals :: "('m, 's) nbctl \<Rightarrow> ('m, 's) nbctl \<Rightarrow> bool" where
  "same_globals g g1 \<longleftrightarrow>
     db g1 = db g \<and> oneline g1 = oneline g \<and> dry_run g1 = dry_run g
     \<and> wait_type g1 = wait_type g \<and> force_wait g1 = force_wait g \<and> timeout g1 = timeout g
     \<and> table_style g1 = table_style g"




text \<open>
  One round of the wait loop of \<^verbatim>\<open>do_nbctl\<close> that neither finds the counter reached nor the
  timer expired makes these calls; \<open>n\<close> such rounds make them \<open>n\<close> times. The counter is
  reached in a round that starts with the calls \<open>idl\<close> made when, after the
  \<^verbatim>\<open>ovsdb_idl_run\<close> of the round, some row has its counter at \<open>next_cfg\<close> or above; the
  deadline has passed in that round when there is a timer and it has expired after the
  \<^verbatim>\<open>poll_block\<close> of the round.
\<close>

definition wait_round :: "timer option \<Rightarrow> 'm idl_call list" where
  "wait_round wait_timeout =
     [IDL_RUN, IDL_WAIT] @ (if wait_timeout \<noteq> None then [TIMER_WAIT] else []) @ [POLL_BLOCK]"

definition wait_rounds :: "nat \<Rightarrow> timer option \<Rightarrow> 'm idl_call list" where
  "wait_rounds n wait_timeout = concat (replicate n (wait_round wait_timeout))"

definition cfg_reached ::
  "('m, 't, 's) ovsdb_env \<Rightarrow> nbctl_wait_type \<Rightarrow> 64 word \<Rightarrow> 'm idl_call list \<Rightarrow> bool" where
  "cfg_reached E w next_cfg idl \<longleftrightarrow>
     list_ex (\<lambda>nb. word_sle next_cfg (cur_cfg w nb)) (nbrec_nb_global_rows E (idl @ [IDL_RUN]))"

definition deadline_passed ::
  "('m, 't, 's) ovsdb_env \<Rightarrow> timer option \<Rightarrow> 'm idl_call list \<Rightarrow> bool" where
  "deadline_passed E wait_timeout idl \<longleftrightarrow>
     (case wait_timeout of
        None \<Rightarrow> False
      | Some t \<Rightarrow> timer_expired E t (idl @ wait_round wait_timeout))"

text \<open>
  The warnings that the pass over the symbol table writes for a table in which every
  symbol has been created: one for each symbol without a strong reference, in the order of
  the table.
\<close>

definition symbol_warnings :: "ovsdb_symbol_table \<Rightarrow> (vlog_level \<times> string) list" where
  "symbol_warnings symtab =
     map (\<lambda>(name, symbol).
            (VLL_WARN, if weak_ref symbol then weak_reference_warning name
                       else no_reference_warning name))
       (filter (\<lambda>(name, symbol). \<not> strong_ref symbol) symtab)"


text \<open>
  The configuration variables that \<^verbatim>\<open>server_cmd_run\<close> resets, as one value, and the same
  state with other values in them.
\<close>

definition global_settings ::
  "('m, 's) nbctl \<Rightarrow> bool \<times> bool \<times> nbctl_wait_type \<times> bool \<times> 32 word \<times> 's" where
  "global_settings g =
     (oneline g, dry_run g, wait_type g, force_wait g, timeout g, table_style g)"

definition with_settings ::
  "bool \<times> bool \<times> nbctl_wait_type \<times> bool \<times> 32 word \<times> 's \<Rightarrow> ('m, 's) nbctl \<Rightarrow> ('m, 's) nbctl"
  where
  "with_settings v g =
     (case v of (ol, dr, wt, fw, tm, ts) \<Rightarrow>
        g\<lparr>oneline := ol, dry_run := dr, wait_type := wt, force_wait := fw, timeout := tm,
          table_style := ts\<rparr>)"



section \<open>Example environments and commands\<close>

text \<open>
  A small database and a few commands on which the functions above can be run. The
  environment is given by the sequence number, the answer to every commit, the \<^verbatim>\<open>sb_cfg\<close>
  counter of the single \<^verbatim>\<open>NB_Global\<close> row and the expiry of the timer, each as a function
  of the calls made so far; the connection counts as warm once the sequence number is not
  zero, and a successful commit brings the counter \<^verbatim>\<open>nb_cfg\<close> to 8.
\<close>

definition example_env ::
  "(string idl_call list \<Rightarrow> 32 word) \<Rightarrow> ovsdb_idl_txn_status \<Rightarrow> (string idl_call list \<Rightarrow> 64 word)
   \<Rightarrow> (string idl_call list \<Rightarrow> bool) \<Rightarrow> (string, string, unit) ovsdb_env" where
  "example_env seqno status sb expired =
     \<lparr>ovsdb_idl_get_seqno = seqno,
      ovsdb_idl_has_ever_connected = (\<lambda>idl. seqno idl \<noteq> 0),
      ovsdb_idl_is_alive = (\<lambda>idl. True),
      ovsdb_idl_get_last_error = (\<lambda>idl. 0),
      ovs_retval_to_string = (\<lambda>retval. []),
      nbrec_nb_global_rows = (\<lambda>idl. [\<lparr>nb_cfg = 7, sb_cfg = sb idl, hv_cfg = 0\<rparr>]),
      ovsdb_idl_txn_commit_status = (\<lambda>idl. status),
      ovsdb_idl_txn_get_increment_new_value = (\<lambda>idl. 8),
      ovsdb_idl_txn_get_error = (\<lambda>idl. []),
      timer_expired = (\<lambda>t idl. expired idl),
      table_print = (\<lambda>t style. t),
      table_style_default = ()\<rparr>"


definition example_nbctl :: "nbctl_wait_type \<Rightarrow> (string, unit) nbctl" where
  "example_nbctl w =
     \<lparr>db = ''unix:ovnnb_db.sock'', oneline = False, dry_run = False, wait_type = w,
      force_wait = False, timeout = 0, table_style = (), the_idl = [], stdout = [], vlog = [],
      vlog_options = []\<rparr>"

definition example_command ::
  "((string, string) ctl_context \<Rightarrow> (string, string) ctl_context)
   \<Rightarrow> (string, string, unit) ctl_command" where
  "example_command f =
     \<lparr>cmd_syntax =
        \<lparr>syntax_name = ''example'', min_args = 0, max_args = 0, prerequisites = None,
         run = Some f, postprocess = None, mode = RW\<rparr>,
      cmd_argv = [''example''], cmd_options = [], cmd_output = [], cmd_table = None\<rparr>"

text \<open>
  Three callbacks: one adds a row operation to the transaction and writes a line of
  output, one reports an error, one enters a symbol into the symbol table.
\<close>

definition example_add :: "string \<Rightarrow> (string, string) ctl_context \<Rightarrow> (string, string) ctl_context"
  where
  "example_add m ctx =
     ctx\<lparr>ctx_txn := map_option (\<lambda>txn. txn\<lparr>txn_ops := txn_ops txn @ [COMMAND_OP m]\<rparr>) (ctx_txn ctx),
         ctx_output := ctx_output ctx @ m @ [newline]\<rparr>"

definition example_fail :: "string \<Rightarrow> (string, string) ctl_context \<Rightarrow> (string, string) ctl_context"
  where
  "example_fail e ctx = ctx\<lparr>ctx_error := Some e\<rparr>"

definition example_symbol ::
  "string \<Rightarrow> ovsdb_symbol \<Rightarrow> (string, string) ctl_context \<Rightarrow> (string, string) ctl_context" where
  "example_symbol name symbol ctx =
     ctx\<lparr>ctx_symtab := map_option (\<lambda>symtab. symtab @ [(name, symbol)]) (ctx_symtab ctx)\<rparr>"

text \<open>
  A callback that looks at the transaction it is given and reports what it finds as its
  error.
\<close>

definition example_probe :: "(string, string) ctl_context \<Rightarrow> (string, string) ctl_context" where
  "example_probe ctx =
     ctx\<lparr>ctx_error :=
           Some (case ctx_txn ctx of
                   None \<Rightarrow> ''no transaction''
                 | Some txn \<Rightarrow>
                     (if txn_ops txn = [INSERT_NB_GLOBAL] then ''row inserted''
                      else ''no row inserted'')
                     @ (case txn_increment txn of
                          None \<Rightarrow> '', no increment''
                        | Some (ROW_INSERTED, NB_GLOBAL_COL_NB_CFG, force) \<Rightarrow>
                            '', increment of nb_cfg of the new row''
                        | Some other \<Rightarrow> '', another increment''))\<rparr>"

text \<open>
  A command line for the daemon: the words after the first that start with two dashes
  are the options, each a name and, after an equals sign, an argument; \<^verbatim>\<open>--oneline\<close>,
  \<^verbatim>\<open>--dry-run\<close>, \<^verbatim>\<open>--no-wait\<close>, \<^verbatim>\<open>--wait\<close> and the logging option \<^verbatim>\<open>--verbose\<close> are known,
  and the only command is \<^verbatim>\<open>add\<close>, which writes two lines.
\<close>

definition example_getopt :: "string \<Rightarrow> getopt_step" where
  "example_getopt a =
     (let name = takeWhile (\<lambda>c. c \<noteq> CHR ''='') (drop 2 a) in
      \<lparr>opt_code =
         (if name = ''oneline'' then OPT_ONELINE
          else if name = ''dry-run'' then OPT_DRY_RUN
          else if name = ''no-wait'' then OPT_NO_WAIT
          else if name = ''wait'' then OPT_WAIT
          else if name = ''verbose'' then OPT_VLOG
          else OPT_UNKNOWN),
       opt_arg =
         (if CHR ''='' \<in> set a then Some (tl (dropWhile (\<lambda>c. c \<noteq> CHR ''='') a)) else None),
       opt_name = name, opt_text = a, opt_optopt = None, opt_optopt_known = False\<rparr>)"

definition example_cmdl :: "(string, string, unit) cmdl_env" where
  "example_cmdl =
     \<lparr>getopt_long =
        (\<lambda>argv. (map example_getopt (takeWhile (\<lambda>a. take 2 a = ''--'') (tl argv)),
                 dropWhile (\<lambda>a. take 2 a = ''--'') (tl argv))),
      str_to_uint = (\<lambda>s. (False, 0)),
      table_option = (\<lambda>step style. style),
      ctl_parse_commands =
        (\<lambda>rest local_options.
           if rest = [''add'']
           then Inr [example_command (example_add ([CHR ''a'', newline, CHR ''b'']))]
           else Inl ''unknown command''),
      process_escape_args = (\<lambda>argv. foldr (\<lambda>a s. if s = [] then a else a @ '' '' @ s) argv []),
      table_format = (\<lambda>t style. t)\<rparr>"


section \<open>Properties of the one-line output format\<close>

lemma ds_chomp_without_trailing_newline:
  "ds_chomp xs newline = without_trailing_newline xs"
proof (cases xs rule: rev_cases)
  case Nil
  then show ?thesis by (simp add: ds_chomp_def without_trailing_newline_def)
next
  case (snoc ys y)
  then show ?thesis by (simp add: ds_chomp_def without_trailing_newline_def nth_append)
qed

lemma oneline_format_put:
  "(if ch = newline then ds_put_cstr s [backslash, CHR ''n'']
    else if ch = backslash then ds_put_cstr s [backslash, backslash]
    else ds_put_char s ch) = s @ oneline_escape ch"
  by (simp add: oneline_escape_def ds_put_cstr_def ds_put_char_def)

lemma oneline_format_loop_drop:
  "oneline_format_loop lines j s = s @ concat (map oneline_escape (drop j lines))"
proof (induction lines j s rule: oneline_format_loop.induct)
  case (1 lines j s)
  show ?case
  proof (cases "j < length lines")
    case True
    then have d: "drop j lines = lines ! j # drop (Suc j) lines"
      by (simp add: Cons_nth_drop_Suc)
    have "oneline_format_loop lines j s
          = oneline_format_loop lines (Suc j) (s @ oneline_escape (lines ! j))"
      using True by (subst oneline_format_loop.simps) (simp only: Let_def oneline_format_put if_True)
    also have "\<dots> = (s @ oneline_escape (lines ! j)) @ concat (map oneline_escape (drop (Suc j) lines))"
      using "1.IH" [OF True refl] by (simp only: oneline_format_put)
    finally show ?thesis by (simp add: d)
  next
    case False
    then show ?thesis by (subst oneline_format_loop.simps) simp
  qed
qed

lemma oneline_escape_no_newline: "newline \<notin> set (oneline_escape c)"
  by (simp add: oneline_escape_def)

lemma concat_escape_no_newline: "newline \<notin> set (concat (map oneline_escape xs))"
  by (induction xs) (simp_all add: oneline_escape_no_newline)

text \<open>
  Claim C7. For every output text \<open>lines\<close> and every buffer \<open>s\<close>, \<^verbatim>\<open>oneline_format\<close> appends to
  \<open>s\<close> the rendering of \<open>lines\<close>: the text without its trailing newline, every remaining
  newline written as backslash and \<open>n\<close>, every backslash doubled, every other character as it
  is and in order, then one newline, which is the only newline of the rendering. The text
  \<open>a\<close>, newline, \<open>b\<close> is rendered as \<open>a\<close>, backslash, \<open>n\<close>, \<open>b\<close>, newline.
\<close>

theorem oneline_format_rendering:
  "snd (oneline_format lines s) = s @ oneline_rendering lines
   \<and> fst (oneline_format lines s) = without_trailing_newline lines
   \<and> oneline_rendering lines
       = concat (map oneline_escape (without_trailing_newline lines)) @ [newline]
   \<and> oneline_escape newline = [backslash, CHR ''n'']
   \<and> oneline_escape backslash = [backslash, backslash]
   \<and> (c \<noteq> newline \<and> c \<noteq> backslash \<longrightarrow> oneline_escape c = [c])
   \<and> count_list (oneline_rendering lines) newline = 1
   \<and> last (oneline_rendering lines) = newline
   \<and> snd (oneline_format [CHR ''a'', newline, CHR ''b''] [])
       = [CHR ''a'', backslash, CHR ''n'', CHR ''b'', newline]"
proof -
  have a: "snd (oneline_format lines s) = s @ oneline_rendering lines" for lines s
    by (simp add: oneline_format_def oneline_rendering_def oneline_format_loop_drop
        ds_chomp_without_trailing_newline ds_put_char_def Let_def)
  have b: "fst (oneline_format lines s) = without_trailing_newline lines"
    by (simp add: oneline_format_def ds_chomp_without_trailing_newline Let_def)
  have c: "count_list (oneline_rendering lines) newline = 1"
    using concat_escape_no_newline [of "without_trailing_newline lines"]
    by (simp add: oneline_rendering_def count_list_0_iff)
  have d: "snd (oneline_format [CHR ''a'', newline, CHR ''b''] [])
       = [CHR ''a'', backslash, CHR ''n'', CHR ''b'', newline]"
    by (simp add: a oneline_rendering_def without_trailing_newline_def oneline_escape_def)
  show ?thesis
    using a b c d by (simp add: oneline_rendering_def oneline_escape_def)
qed

theorem oneline_format_rendering_witness:
  "CHR ''x'' \<noteq> newline \<and> CHR ''x'' \<noteq> backslash \<and> oneline_escape CHR ''x'' = [CHR ''x'']
   \<and> snd (oneline_format [CHR ''x'', backslash, newline, newline] [CHR ''>''])
       = [CHR ''>'', CHR ''x'', backslash, backslash, backslash, CHR ''n'', newline]"
  using oneline_format_rendering [of "[CHR ''x'', backslash, newline, newline]" "[CHR ''>'']" "CHR ''x''"]
  by (simp add: oneline_rendering_def without_trailing_newline_def oneline_escape_def)

section \<open>Basic facts about the model\<close>

lemma committed_upto_append:
  "committed_upto E before (xs @ ys)
     = committed_upto E before xs @ committed_upto E (before @ xs) ys"
proof (induction xs arbitrary: before)
  case Nil
  then show ?case by simp
next
  case (Cons x xs)
  then show ?case by (cases x) simp_all
qed

lemma committed_append:
  "committed E (xs @ ys) = committed E xs @ committed_upto E xs ys"
  by (simp add: committed_def committed_upto_append)

lemma the_idl_idl_call [simp]: "the_idl (idl_call c g) = the_idl g @ [c]"
  by (simp add: idl_call_def)

lemma same_globals_refl [simp]: "same_globals g g"
  by (simp add: same_globals_def)

lemma same_globals_trans: "same_globals a b \<Longrightarrow> same_globals b c \<Longrightarrow> same_globals a c"
  by (simp add: same_globals_def)

lemma same_globals_idl_call [simp]: "same_globals g (idl_call c g') = same_globals g g'"
  by (simp add: same_globals_def idl_call_def)

lemma same_globals_VLOG [simp]: "same_globals g (VLOG l m g') = same_globals g g'"
  by (simp add: same_globals_def VLOG_def)

lemma same_globals_fputs [simp]: "same_globals g (fputs_stdout s g') = same_globals g g'"
  by (simp add: same_globals_def fputs_stdout_def)

lemma do_nbctl_run_append:
  "do_nbctl_run ctx xs = (None, False, ctx1, xs1) \<Longrightarrow>
   do_nbctl_run ctx (xs @ ys)
     = (case do_nbctl_run ctx1 ys of (e, t, ctx2, ys1) \<Rightarrow> (e, t, ctx2, xs1 @ ys1))"
proof (induction xs arbitrary: ctx xs1)
  case Nil
  then show ?case by (simp split: prod.splits)
next
  case (Cons x xs)
  then show ?case
    by (auto simp: Let_def split: prod.splits if_splits)
qed

lemma do_nbctl_symbols_state:
  "do_nbctl_symbols symtab g = (e, g') \<Longrightarrow>
     the_idl g' = the_idl g \<and> stdout g' = stdout g \<and> same_globals g g'"
proof (induction symtab arbitrary: g)
  case Nil
  then show ?case by simp
next
  case (Cons a symtab)
  obtain name symbol where a: "a = (name, symbol)" by (cases a)
  show ?case
    using Cons.prems Cons.IH
    by (auto simp: a VLOG_def same_globals_def split: if_splits)
qed

lemma do_nbctl_print_state:
  "do_nbctl_print E cs g = (cs', g') \<Longrightarrow>
     the_idl g' = the_idl g \<and> vlog g' = vlog g \<and> same_globals g g'"
proof (induction cs arbitrary: g cs')
  case Nil
  then show ?case by simp
next
  case (Cons c cs)
  show ?case
    using Cons.prems Cons.IH
    by (auto simp: Let_def fputs_stdout_def oneline_print_def same_globals_def
             split: prod.splits option.splits if_splits)
qed

lemma do_nbctl_wait_state:
  assumes "do_nbctl_wait E wait_timeout next_cfg g = Some y"
  shows "(\<exists>calls. the_idl (snd y) = the_idl g @ IDL_RUN # calls
        \<and> set calls \<subseteq> {IDL_RUN, IDL_WAIT, TIMER_WAIT, POLL_BLOCK})
     \<and> vlog (snd y) = vlog g \<and> stdout (snd y) = stdout g \<and> same_globals g (snd y)"
  using assms
proof (induction E wait_timeout next_cfg g y rule: do_nbctl_wait.raw_induct [rotated 1, consumes 1])
  case (1 f E wait_timeout next_cfg g y)
  show ?case
  proof (cases "\<exists>nb \<in> set (nbrec_nb_global_rows E (the_idl g @ [IDL_RUN])).
           word_sle next_cfg (cur_cfg (wait_type g) nb)")
    case True
    with "1.hyps" have "y = (None, idl_call IDL_RUN g)"
      by (simp add: Let_def idl_call_def)
    then show ?thesis by (simp add: idl_call_def same_globals_def)
  next
    case False
    show ?thesis
    proof (cases wait_timeout)
      case None
      with False "1.hyps"
      have "f E wait_timeout next_cfg (g\<lparr>the_idl := the_idl g @ [IDL_RUN, IDL_WAIT, POLL_BLOCK]\<rparr>) = Some y"
        by (simp add: Let_def idl_call_def)
      from "1.IH" [OF this] show ?thesis
        by (auto simp: same_globals_def)
    next
      case (Some t)
      show ?thesis
      proof (cases "timer_expired E t (the_idl g @ [IDL_RUN, IDL_WAIT, TIMER_WAIT, POLL_BLOCK])")
        case True
        with False Some "1.hyps"
        have "y = (Some ''timeout expired'',
                   g\<lparr>the_idl := the_idl g @ [IDL_RUN, IDL_WAIT, TIMER_WAIT, POLL_BLOCK]\<rparr>)"
          by (simp add: Let_def idl_call_def)
        then show ?thesis by (simp add: same_globals_def)
      next
        case exp: False
        with False Some "1.hyps"
        have "f E wait_timeout next_cfg
                (g\<lparr>the_idl := the_idl g @ [IDL_RUN, IDL_WAIT, TIMER_WAIT, POLL_BLOCK]\<rparr>) = Some y"
          by (simp add: Let_def idl_call_def)
        from "1.IH" [OF this] show ?thesis
          by (auto simp: same_globals_def)
      qed
    qed
  qed
qed


lemma do_nbctl_committed_unfold:
  assumes post: "(if status = TXN_UNCHANGED \<or> status = TXN_SUCCESS
                  then do_nbctl_postprocess ctx (the_idl g) txn symtab commands
                  else (None, ctx, commands)) = (error, ctx1, commands1)"
      and pr: "do_nbctl_print E commands1 g = (commands2, g1)"
  shows "do_nbctl_committed E wait_timeout status ctx txn symtab commands g =
     (if error \<noteq> None then Some (RETURN (do_nbctl_out_error error None commands1 g))
      else if status = TXN_UNCOMMITTED \<or> status = TXN_INCOMPLETE then Some (ABORT g)
      else if status = TXN_ABORTED
      then Some (RETURN (do_nbctl_out_error (Some ''transaction aborted'') None commands1 g))
      else if status = TXN_TRY_AGAIN
      then Some (RETURN (do_nbctl_out_error None (Some True) commands1 g))
      else if status = TXN_ERROR
      then Some (RETURN (do_nbctl_out_error
                  (Some (''transaction error: '' @ ovsdb_idl_txn_get_error E (the_idl g)))
                  None commands1 g))
      else if status = TXN_NOT_LOCKED
      then Some (RETURN (do_nbctl_out_error (Some ''database not locked'') None commands1 g))
      else if wait_type g \<noteq> NBCTL_WAIT_NONE \<and> status = TXN_SUCCESS
      then (case do_nbctl_wait E wait_timeout (ovsdb_idl_txn_get_increment_new_value E (the_idl g))
                   (idl_call IDL_ENABLE_RECONNECT g1) of
              None \<Rightarrow> None
            | Some (Some e, g2) \<Rightarrow> Some (RETURN (do_nbctl_out_error (Some e) None commands2 g2))
            | Some (None, g2) \<Rightarrow> Some (RETURN (do_nbctl_done commands2 g2)))
      else Some (RETURN (do_nbctl_done commands2 g1)))"
proof -
  have w: "wait_type g1 = wait_type g"
    using do_nbctl_print_state [OF pr] by (simp add: same_globals_def)
  show ?thesis
    unfolding do_nbctl_committed_def Let_def post prod.case pr w
    by (cases status) simp_all
qed


section \<open>A failing command aborts the whole batch\<close>

text \<open>
  Claim C1. Let the batch be \<open>pre @ c # post\<close>, let the commands of \<open>pre\<close> run without an
  error and without a request to try again, and let the \<^verbatim>\<open>run\<close> callback of \<open>c\<close> report
  the error \<open>e\<close>. Then \<^verbatim>\<open>do_nbctl\<close> returns \<open>e\<close>; the only calls it has made on the IDL
  are the creation, the abort and the destruction of the transaction, so the transaction was
  never handed to \<^verbatim>\<open>ovsdb_idl_txn_commit_block\<close>; what has been committed to the database is
  what had been committed before, whatever the commands of \<open>pre\<close> and \<open>post\<close> proposed;
  nothing was printed and the output of every command is discarded.
\<close>

theorem do_nbctl_run_error_aborts:
  assumes "commands = pre @ c # post"
    and "do_nbctl_run (do_nbctl_ctx E args (idl_call TXN_CREATE g)) (do_nbctl_reset pre)
           = (None, False, ctx, pre1)"
    and "run (cmd_syntax c) = Some f"
    and "ctx_error (f (ctl_context_init_command ctx (c\<lparr>cmd_output := [], cmd_table := None\<rparr>)))
           = Some e"
  shows "\<exists>r. do_nbctl E args commands wait_timeout g = Some (RETURN r)
           \<and> ret_error r = Some e \<and> ret_retry r = None
           \<and> the_idl (ret_nbctl r) = the_idl g @ [TXN_CREATE, TXN_ABORT, TXN_DESTROY]
           \<and> committed E (the_idl (ret_nbctl r)) = committed E (the_idl g)
           \<and> stdout (ret_nbctl r) = stdout g
           \<and> list_all (\<lambda>c. cmd_output c = [] \<and> cmd_table c = None) (ret_commands r)"
proof -
  let ?c = "c\<lparr>cmd_output := [], cmd_table := None\<rparr>"
  have here: "fst (do_nbctl_run ctx (?c # do_nbctl_reset post)) = Some e"
    using assms(3,4) by (simp add: Let_def split: prod.splits)
  have "do_nbctl_reset commands = do_nbctl_reset pre @ ?c # do_nbctl_reset post"
    by (simp add: assms(1) do_nbctl_reset_def)
  then have "fst (do_nbctl_run (do_nbctl_ctx E args (idl_call TXN_CREATE g))
                    (do_nbctl_reset commands)) = Some e"
    using do_nbctl_run_append [OF assms(2), of "?c # do_nbctl_reset post"] here
    by (simp split: prod.splits)
  then obtain t ctx1 cmds2 where run:
    "do_nbctl_run (do_nbctl_ctx E args (idl_call TXN_CREATE g)) (do_nbctl_reset commands)
       = (Some e, t, ctx1, cmds2)"
    by (cases "do_nbctl_run (do_nbctl_ctx E args (idl_call TXN_CREATE g))
                 (do_nbctl_reset commands)") auto
  have d: "do_nbctl E args commands wait_timeout g
            = Some (RETURN (do_nbctl_out_error (Some e) None cmds2 (idl_call TXN_CREATE g)))"
    by (simp add: do_nbctl_def Let_def run)
  show ?thesis
    by (simp add: d do_nbctl_out_error_def committed_append idl_call_def list_all_iff)
qed

text \<open>
  The example: three commands, the second of which fails, against a server that would
  accept every transaction.
\<close>

lemmas example_defs =
  example_env_def example_nbctl_def example_command_def example_add_def example_fail_def
  example_symbol_def

lemmas do_nbctl_defs =
  do_nbctl_def do_nbctl_ctx_def do_nbctl_txn_def do_nbctl_reset_def do_nbctl_out_error_def
  do_nbctl_done_def do_nbctl_committed_def ctl_context_init_def ctl_context_init_command_def
  ctl_context_done_command_def ctx_uninitialized_def ovsdb_idl_txn_create_def
  nbrec_nb_global_first_def idl_call_def fputs_stdout_def VLOG_def oneline_print_def

theorem do_nbctl_run_error_aborts_witness:
  "[example_command (example_add ''a''), example_command (example_fail ''no such switch''),
      example_command (example_add ''b'')]
     = [example_command (example_add ''a'')] @ example_command (example_fail ''no such switch'')
         # [example_command (example_add ''b'')]
   \<and> run (cmd_syntax (example_command (example_fail ''no such switch'')))
       = Some (example_fail ''no such switch'')
   \<and> (\<exists>r. do_nbctl (example_env (\<lambda>idl. 1) TXN_SUCCESS (\<lambda>idl. 0) (\<lambda>idl. False)) ''example''
             [example_command (example_add ''a''), example_command (example_fail ''no such switch''),
              example_command (example_add ''b'')] None (example_nbctl NBCTL_WAIT_NONE)
           = Some (RETURN r)
         \<and> ret_error r = Some ''no such switch''
         \<and> the_idl (ret_nbctl r) = [TXN_CREATE, TXN_ABORT, TXN_DESTROY]
         \<and> committed (example_env (\<lambda>idl. 1) TXN_SUCCESS (\<lambda>idl. 0) (\<lambda>idl. False))
             (the_idl (ret_nbctl r)) = [])"
proof -
  let ?E = "example_env (\<lambda>idl. 1) TXN_SUCCESS (\<lambda>idl. 0) (\<lambda>idl. False)"
  let ?g = "example_nbctl NBCTL_WAIT_NONE"
  let ?a = "example_command (example_add ''a'')"
  let ?f = "example_command (example_fail ''no such switch'')"
  let ?b = "example_command (example_add ''b'')"
  obtain ctx pre1 where pre:
    "do_nbctl_run (do_nbctl_ctx ?E ''example'' (idl_call TXN_CREATE ?g)) (do_nbctl_reset [?a])
       = (None, False, ctx, pre1)"
    "ctx_error (example_fail ''no such switch''
        (ctl_context_init_command ctx (?f\<lparr>cmd_output := [], cmd_table := None\<rparr>)))
       = Some ''no such switch''"
    by (simp add: do_nbctl_defs example_defs Let_def)
  have split: "[?a, ?f, ?b] = [?a] @ ?f # [?b]" by simp
  have run: "run (cmd_syntax ?f) = Some (example_fail ''no such switch'')"
    by (simp add: example_command_def)
  have g: "the_idl ?g = []" "committed ?E [] = []"
    by (simp_all add: example_nbctl_def committed_def)
  from do_nbctl_run_error_aborts [OF split pre(1) run pre(2), of None]
  obtain r where r: "do_nbctl ?E ''example'' [?a, ?f, ?b] None ?g = Some (RETURN r)"
    "ret_error r = Some ''no such switch''"
    "the_idl (ret_nbctl r) = [TXN_CREATE, TXN_ABORT, TXN_DESTROY]"
    "committed ?E (the_idl (ret_nbctl r)) = []"
    by (auto simp: g)
  show ?thesis
    using split run r by blast
qed

section \<open>Validation of the symbol table\<close>

lemma do_nbctl_symbols_uncreated:
  "find (\<lambda>(name, symbol). \<not> created symbol) symtab = Some (name, symbol) \<Longrightarrow>
   fst (do_nbctl_symbols symtab g) = Some (never_created_error name)"
proof (induction symtab arbitrary: g)
  case Nil
  then show ?case by simp
next
  case (Cons a symtab)
  obtain n s where a: "a = (n, s)" by (cases a)
  show ?case
    using Cons.prems Cons.IH by (auto simp: a split: if_splits)
qed

lemma do_nbctl_symbols_created:
  "list_all (\<lambda>(name, symbol). created symbol) symtab \<Longrightarrow>
   do_nbctl_symbols symtab g = (None, g\<lparr>vlog := vlog g @ symbol_warnings symtab\<rparr>)"
proof (induction symtab arbitrary: g)
  case Nil
  then show ?case by (simp add: symbol_warnings_def)
next
  case (Cons a symtab)
  obtain n s where a: "a = (n, s)" by (cases a)
  show ?case
    using Cons.prems Cons.IH by (simp add: a symbol_warnings_def VLOG_def)
qed

lemma do_nbctl_committed_state:
  assumes "do_nbctl_committed E wait_timeout status ctx txn symtab commands g = Some out"
  shows "(\<exists>calls. the_idl (do_nbctl_state out) = the_idl g @ calls
            \<and> set calls \<subseteq> {IDL_ENABLE_RECONNECT, IDL_RUN, IDL_WAIT, TIMER_WAIT, POLL_BLOCK,
                             TXN_ABORT, TXN_DESTROY})
         \<and> vlog (do_nbctl_state out) = vlog g \<and> same_globals g (do_nbctl_state out)"
proof -
  obtain error ctx1 commands1 where post:
    "(if status = TXN_UNCHANGED \<or> status = TXN_SUCCESS
      then do_nbctl_postprocess ctx (the_idl g) txn symtab commands
      else (None, ctx, commands)) = (error, ctx1, commands1)"
    by (metis prod_cases3)
  obtain commands2 g1 where pr: "do_nbctl_print E commands1 g = (commands2, g1)"
    by (cases "do_nbctl_print E commands1 g")
  note g1 = do_nbctl_print_state [OF pr]
  note u = do_nbctl_committed_unfold [OF post pr, of wait_timeout]
  show ?thesis
  proof (cases "error = None \<and> (status = TXN_UNCHANGED \<or> status = TXN_SUCCESS)")
    case False
    then show ?thesis
      using assms unfolding u
      by (cases status)
         (auto simp: do_nbctl_out_error_def idl_call_def same_globals_def split: if_splits)
  next
    case ok: True
    show ?thesis
    proof (cases "wait_type g \<noteq> NBCTL_WAIT_NONE \<and> status = TXN_SUCCESS")
      case False
      then have "out = RETURN (do_nbctl_done commands2 g1)"
        using assms ok unfolding u by auto
      then show ?thesis
        using g1 by (auto simp: do_nbctl_done_def idl_call_def same_globals_def)
    next
      case True
      then obtain e g2 where w:
        "do_nbctl_wait E wait_timeout (ovsdb_idl_txn_get_increment_new_value E (the_idl g))
           (idl_call IDL_ENABLE_RECONNECT g1) = Some (e, g2)"
        and out: "out = (case e of Some e' \<Rightarrow> RETURN (do_nbctl_out_error (Some e') None commands2 g2)
                         | None \<Rightarrow> RETURN (do_nbctl_done commands2 g2))"
        using assms ok unfolding u by (auto split: option.splits)
      from do_nbctl_wait_state [OF w] g1
      obtain calls where c: "the_idl g2 = the_idl g @ IDL_ENABLE_RECONNECT # IDL_RUN # calls"
        "set calls \<subseteq> {IDL_RUN, IDL_WAIT, TIMER_WAIT, POLL_BLOCK}"
        "vlog g2 = vlog g" "same_globals g g2"
        by (auto simp: idl_call_def same_globals_def)
      show ?thesis
        using c unfolding out
        by (cases e) (auto simp: do_nbctl_out_error_def do_nbctl_done_def idl_call_def
                                 same_globals_def)
    qed
  qed
qed



text \<open>
  Claim C2. Let every \<^verbatim>\<open>run\<close> callback of the batch have succeeded, leaving the symbol
  table \<open>symtab\<close> and the transaction \<open>txn\<close>. If some symbol has not been created, and
  \<open>name\<close> is the first such symbol in the order of the table, \<^verbatim>\<open>do_nbctl\<close> returns the error
  that starts with \<open>row id "name" is referenced but never created\<close>, and it has aborted the
  transaction without handing it to \<^verbatim>\<open>ovsdb_idl_txn_commit_block\<close>. If every symbol has
  been created, \<^verbatim>\<open>do_nbctl\<close> writes one warning for each symbol without a strong reference,
  one text for a symbol with no reference and another for a symbol with a weak reference
  only, and goes on to commit the transaction: it continues as the code after the commit
  does, from the state in which \<open>txn\<close> has been handed to \<^verbatim>\<open>ovsdb_idl_txn_commit_block\<close>.
\<close>

theorem do_nbctl_symbols_checked:
  assumes "do_nbctl_run (do_nbctl_ctx E args (idl_call TXN_CREATE g)) (do_nbctl_reset commands)
             = (None, False, ctx, commands1)"
    and "ctx_symtab ctx = Some symtab"
    and "ctx_txn ctx = Some txn"
  shows "(\<forall>name symbol.
            find (\<lambda>(name, symbol). \<not> created symbol) symtab = Some (name, symbol) \<longrightarrow>
            (\<exists>r. do_nbctl E args commands wait_timeout g = Some (RETURN r)
               \<and> ret_error r = Some (never_created_error name)
               \<and> never_created_error name
                   = ''row id \"'' @ name @ ''\" is referenced but never created''
                     @ '' (e.g. with \"-- --id='' @ name @ '' create ...\")''
               \<and> the_idl (ret_nbctl r) = the_idl g @ [TXN_CREATE, TXN_ABORT, TXN_DESTROY]))
       \<and> (list_all (\<lambda>(name, symbol). created symbol) symtab \<longrightarrow>
            do_nbctl E args commands wait_timeout g
              = do_nbctl_committed E wait_timeout
                  (ovsdb_idl_txn_commit_status E (the_idl g @ [TXN_CREATE, TXN_COMMIT_BLOCK txn]))
                  ctx txn symtab commands1
                  (g\<lparr>vlog := vlog g @ symbol_warnings symtab,
                     the_idl := the_idl g @ [TXN_CREATE, TXN_COMMIT_BLOCK txn]\<rparr>))
       \<and> (list_all (\<lambda>(name, symbol). created symbol) symtab \<longrightarrow>
            (\<forall>out. do_nbctl E args commands wait_timeout g = Some out \<longrightarrow>
               (\<exists>calls. the_idl (do_nbctl_state out)
                           = the_idl g @ [TXN_CREATE, TXN_COMMIT_BLOCK txn] @ calls)
               \<and> vlog (do_nbctl_state out) = vlog g @ symbol_warnings symtab))
       \<and> symbol_warnings symtab
           = map (\<lambda>(name, symbol).
                    (VLL_WARN, if weak_ref symbol then weak_reference_warning name
                               else no_reference_warning name))
               (filter (\<lambda>(name, symbol). \<not> strong_ref symbol) symtab)"
proof -
  have A: "\<exists>r. do_nbctl E args commands wait_timeout g = Some (RETURN r)
               \<and> ret_error r = Some (never_created_error name)
               \<and> never_created_error name
                   = ''row id \"'' @ name @ ''\" is referenced but never created''
                     @ '' (e.g. with \"-- --id='' @ name @ '' create ...\")''
               \<and> the_idl (ret_nbctl r) = the_idl g @ [TXN_CREATE, TXN_ABORT, TXN_DESTROY]"
    if f: "find (\<lambda>(name, symbol). \<not> created symbol) symtab = Some (name, symbol)"
    for name symbol
  proof -
    obtain g2 where s: "do_nbctl_symbols symtab (idl_call TXN_CREATE g)
                          = (Some (never_created_error name), g2)"
      using do_nbctl_symbols_uncreated [OF f, of "idl_call TXN_CREATE g"]
      by (cases "do_nbctl_symbols symtab (idl_call TXN_CREATE g)") auto
    have idl: "the_idl g2 = the_idl g @ [TXN_CREATE]"
      using do_nbctl_symbols_state [OF s] by simp
    have d: "do_nbctl E args commands wait_timeout g
               = Some (RETURN (do_nbctl_out_error (Some (never_created_error name)) None
                                 commands1 g2))"
      by (simp add: do_nbctl_def Let_def assms s)
    show ?thesis
      by (simp add: d do_nbctl_out_error_def idl never_created_error_def)
  qed
  have B: "do_nbctl E args commands wait_timeout g
            = do_nbctl_committed E wait_timeout
                (ovsdb_idl_txn_commit_status E (the_idl g @ [TXN_CREATE, TXN_COMMIT_BLOCK txn]))
                ctx txn symtab commands1
                (idl_call (TXN_COMMIT_BLOCK txn)
                   ((idl_call TXN_CREATE g)\<lparr>vlog := vlog (idl_call TXN_CREATE g)
                       @ symbol_warnings symtab\<rparr>))"
    if a: "list_all (\<lambda>(name, symbol). created symbol) symtab"
    by (simp add: do_nbctl_def Let_def assms do_nbctl_symbols_created [OF a])
  have C: "(\<exists>calls. the_idl (do_nbctl_state out)
                   = the_idl g @ [TXN_CREATE, TXN_COMMIT_BLOCK txn] @ calls)
        \<and> vlog (do_nbctl_state out) = vlog g @ symbol_warnings symtab"
    if a: "list_all (\<lambda>(name, symbol). created symbol) symtab"
      and out: "do_nbctl E args commands wait_timeout g = Some out" for out
    using do_nbctl_committed_state [OF out [unfolded B [OF a]]]
    by (auto simp: idl_call_def)
  have B': "do_nbctl E args commands wait_timeout g
              = do_nbctl_committed E wait_timeout
                  (ovsdb_idl_txn_commit_status E (the_idl g @ [TXN_CREATE, TXN_COMMIT_BLOCK txn]))
                  ctx txn symtab commands1
                  (g\<lparr>vlog := vlog g @ symbol_warnings symtab,
                     the_idl := the_idl g @ [TXN_CREATE, TXN_COMMIT_BLOCK txn]\<rparr>)"
    if a: "list_all (\<lambda>(name, symbol). created symbol) symtab"
    using B [OF a] by (simp add: idl_call_def)
  have D: "symbol_warnings symtab
           = map (\<lambda>(name, symbol).
                    (VLL_WARN, if weak_ref symbol then weak_reference_warning name
                               else no_reference_warning name))
               (filter (\<lambda>(name, symbol). \<not> strong_ref symbol) symtab)"
    by (simp add: symbol_warnings_def)
  show ?thesis
    using A B' C D by blast
qed


text \<open>
  The example: a batch that leaves the symbol \<open>foo\<close> declared and not created, and a batch
  that creates three symbols, the first without a reference, the second with a weak
  reference only, the third with a strong reference.
\<close>

theorem do_nbctl_symbols_checked_witness:
  "find (\<lambda>(name, symbol). \<not> created symbol)
      [(''foo'', \<lparr>created = False, strong_ref = True, weak_ref = False\<rparr>)]
     = Some (''foo'', \<lparr>created = False, strong_ref = True, weak_ref = False\<rparr>)
   \<and> (\<exists>r. do_nbctl (example_env (\<lambda>idl. 1) TXN_SUCCESS (\<lambda>idl. 0) (\<lambda>idl. False)) ''example''
             [example_command
                (example_symbol ''foo'' \<lparr>created = False, strong_ref = True, weak_ref = False\<rparr>)]
             None (example_nbctl NBCTL_WAIT_NONE) = Some (RETURN r)
         \<and> ret_error r
             = Some ''row id \"foo\" is referenced but never created (e.g. with \"-- --id=foo create ...\")''
         \<and> the_idl (ret_nbctl r) = [TXN_CREATE, TXN_ABORT, TXN_DESTROY])
   \<and> list_all (\<lambda>(name, symbol). created symbol)
        [(''a'', \<lparr>created = True, strong_ref = False, weak_ref = False\<rparr>),
         (''b'', \<lparr>created = True, strong_ref = False, weak_ref = True\<rparr>),
         (''c'', \<lparr>created = True, strong_ref = True, weak_ref = False\<rparr>)]
   \<and> (\<exists>out calls.
         do_nbctl (example_env (\<lambda>idl. 1) TXN_SUCCESS (\<lambda>idl. 0) (\<lambda>idl. False)) ''example''
           [example_command
              (example_symbol ''a'' \<lparr>created = True, strong_ref = False, weak_ref = False\<rparr>),
            example_command
              (example_symbol ''b'' \<lparr>created = True, strong_ref = False, weak_ref = True\<rparr>),
            example_command
              (example_symbol ''c'' \<lparr>created = True, strong_ref = True, weak_ref = False\<rparr>)]
           None (example_nbctl NBCTL_WAIT_NONE) = Some out
         \<and> the_idl (do_nbctl_state out)
             = [TXN_CREATE,
                TXN_COMMIT_BLOCK \<lparr>txn_dry_run = False, txn_comment = ''ovs-nbctl: example'',
                                  txn_ops = [], txn_increment = None\<rparr>] @ calls
         \<and> vlog (do_nbctl_state out)
             = [(VLL_WARN, no_reference_warning ''a''), (VLL_WARN, weak_reference_warning ''b'')])"
proof -
  let ?E = "example_env (\<lambda>idl. 1) TXN_SUCCESS (\<lambda>idl. 0) (\<lambda>idl. False)"
  let ?g = "example_nbctl NBCTL_WAIT_NONE"
  let ?foo = "[(''foo'', \<lparr>created = False, strong_ref = True, weak_ref = False\<rparr>)]"
  let ?abc = "[(''a'', \<lparr>created = True, strong_ref = False, weak_ref = False\<rparr>),
               (''b'', \<lparr>created = True, strong_ref = False, weak_ref = True\<rparr>),
               (''c'', \<lparr>created = True, strong_ref = True, weak_ref = False\<rparr>)]"
  let ?cmds1 = "[example_command
                (example_symbol ''foo'' \<lparr>created = False, strong_ref = True, weak_ref = False\<rparr>)]"
  let ?cmds2 = "[example_command
              (example_symbol ''a'' \<lparr>created = True, strong_ref = False, weak_ref = False\<rparr>),
            example_command
              (example_symbol ''b'' \<lparr>created = True, strong_ref = False, weak_ref = True\<rparr>),
            example_command
              (example_symbol ''c'' \<lparr>created = True, strong_ref = True, weak_ref = False\<rparr>)]"
  let ?txn = "\<lparr>txn_dry_run = False, txn_comment = ''ovs-nbctl: example'',
               txn_ops = [], txn_increment = None\<rparr> :: string ovsdb_idl_txn"
  have g: "the_idl ?g = []" "vlog ?g = []"
    by (simp_all add: example_nbctl_def)
  obtain ctx1 commands1 where run1:
    "do_nbctl_run (do_nbctl_ctx ?E ''example'' (idl_call TXN_CREATE ?g)) (do_nbctl_reset ?cmds1)
       = (None, False, ctx1, commands1)"
    "ctx_symtab ctx1 = Some ?foo" "ctx_txn ctx1 = Some ?txn"
    by (simp add: do_nbctl_defs example_defs Let_def)
  obtain ctx2 commands2 where run2:
    "do_nbctl_run (do_nbctl_ctx ?E ''example'' (idl_call TXN_CREATE ?g)) (do_nbctl_reset ?cmds2)
       = (None, False, ctx2, commands2)"
    "ctx_symtab ctx2 = Some ?abc" "ctx_txn ctx2 = Some ?txn"
    by (simp add: do_nbctl_defs example_defs Let_def)
  have f: "find (\<lambda>(name, symbol). \<not> created symbol) ?foo = Some (hd ?foo)"
    and a: "list_all (\<lambda>(name, symbol). created symbol) ?abc"
    and w: "symbol_warnings ?abc
             = [(VLL_WARN, no_reference_warning ''a''), (VLL_WARN, weak_reference_warning ''b'')]"
    and n: "never_created_error ''foo''
             = ''row id \"foo\" is referenced but never created (e.g. with \"-- --id=foo create ...\")''"
    by (simp_all add: symbol_warnings_def never_created_error_def)
  obtain out where out: "do_nbctl ?E ''example'' ?cmds2 None ?g = Some out"
    by (simp add: do_nbctl_defs example_defs Let_def do_nbctl_run.simps)
  note t1 = do_nbctl_symbols_checked [OF run1, of None]
  note t2 = do_nbctl_symbols_checked [OF run2, of None]
  from t1 f have 1: "\<exists>r. do_nbctl ?E ''example'' ?cmds1 None ?g = Some (RETURN r)
         \<and> ret_error r = Some (never_created_error ''foo'')
         \<and> the_idl (ret_nbctl r) = [TXN_CREATE, TXN_ABORT, TXN_DESTROY]"
    by (auto simp: g)
  from t2 a out have 2: "\<exists>calls. the_idl (do_nbctl_state out)
             = [TXN_CREATE, TXN_COMMIT_BLOCK ?txn] @ calls"
     "vlog (do_nbctl_state out)
             = [(VLL_WARN, no_reference_warning ''a''), (VLL_WARN, weak_reference_warning ''b'')]"
    by (auto simp: g w)
  show ?thesis
    using f a 1 2 out unfolding n by auto
qed

section \<open>The wait for the other databases\<close>

lemma calls_since_append [simp]:
  "the_idl g1 = the_idl g @ calls \<Longrightarrow> calls_since g g1 = calls"
  by (simp add: calls_since_def)

lemma wait_rounds_0 [simp]: "wait_rounds 0 wait_timeout = []"
  by (simp add: wait_rounds_def)

lemma wait_rounds_Suc:
  "wait_rounds (Suc n) wait_timeout = wait_rounds n wait_timeout @ wait_round wait_timeout"
  by (induction n) (simp_all add: wait_rounds_def)

lemma do_nbctl_wait_reached:
  assumes "cfg_reached E (wait_type g) next_cfg (the_idl g)"
  shows "do_nbctl_wait E wait_timeout next_cfg g = Some (None, idl_call IDL_RUN g)"
  using assms
  by (subst do_nbctl_wait.simps) (simp add: cfg_reached_def Let_def idl_call_def list_ex_iff)

lemma do_nbctl_wait_expired:
  assumes "\<not> cfg_reached E (wait_type g) next_cfg (the_idl g)"
    and "deadline_passed E wait_timeout (the_idl g)"
  shows "do_nbctl_wait E wait_timeout next_cfg g
           = Some (Some ''timeout expired'', g\<lparr>the_idl := the_idl g @ wait_round wait_timeout\<rparr>)"
  using assms
  by (subst do_nbctl_wait.simps)
     (auto simp: cfg_reached_def deadline_passed_def wait_round_def Let_def idl_call_def
                 list_ex_iff split: option.splits)

lemma do_nbctl_wait_round:
  assumes "\<not> cfg_reached E (wait_type g) next_cfg (the_idl g)"
    and "\<not> deadline_passed E wait_timeout (the_idl g)"
  shows "do_nbctl_wait E wait_timeout next_cfg g
           = do_nbctl_wait E wait_timeout next_cfg
               (g\<lparr>the_idl := the_idl g @ wait_round wait_timeout\<rparr>)"
  using assms
  by (subst do_nbctl_wait.simps)
     (auto simp: cfg_reached_def deadline_passed_def wait_round_def Let_def idl_call_def
                 list_ex_iff split: option.splits)

lemma do_nbctl_wait_rounds:
  assumes "\<forall>k<n. \<not> cfg_reached E (wait_type g) next_cfg (the_idl g @ wait_rounds k wait_timeout)
                \<and> \<not> deadline_passed E wait_timeout (the_idl g @ wait_rounds k wait_timeout)"
  shows "do_nbctl_wait E wait_timeout next_cfg g
           = do_nbctl_wait E wait_timeout next_cfg
               (g\<lparr>the_idl := the_idl g @ wait_rounds n wait_timeout\<rparr>)"
  using assms
proof (induction n)
  case 0
  then show ?case by simp
next
  case (Suc n)
  let ?g = "g\<lparr>the_idl := the_idl g @ wait_rounds n wait_timeout\<rparr>"
  have "do_nbctl_wait E wait_timeout next_cfg g = do_nbctl_wait E wait_timeout next_cfg ?g"
    using Suc by simp
  also have "\<dots> = do_nbctl_wait E wait_timeout next_cfg
                     (?g\<lparr>the_idl := the_idl ?g @ wait_round wait_timeout\<rparr>)"
    using Suc.prems by (intro do_nbctl_wait_round) simp_all
  finally show ?case by (simp add: wait_rounds_Suc)
qed

text \<open>
  Claim C5, as amended. Take \<^verbatim>\<open>do_nbctl\<close> at the point where
  \<^verbatim>\<open>ovsdb_idl_txn_commit_block\<close> has returned \<open>status\<close>, and let \<open>error\<close> be what the
  postprocess callbacks report (they run for the statuses \<^verbatim>\<open>TXN_UNCHANGED\<close> and
  \<^verbatim>\<open>TXN_SUCCESS\<close> only). The wait loop is entered exactly when the wait type is not
  \<^verbatim>\<open>NBCTL_WAIT_NONE\<close>, the status is \<^verbatim>\<open>TXN_SUCCESS\<close> and no postprocess callback has reported
  an error: in that case \<^verbatim>\<open>do_nbctl\<close> ends as the loop started with the new value of the
  counter ends, and every run that ends has enabled reconnection and polled; in every other
  case \<^verbatim>\<open>do_nbctl\<close> ends, and after the commit it has made no call on the IDL but the abort
  and the destruction of the transaction. In particular a commit that changes nothing is
  never followed by a poll.
\<close>

theorem do_nbctl_wait_entered:
  assumes post: "(if status = TXN_UNCHANGED \<or> status = TXN_SUCCESS
                  then do_nbctl_postprocess ctx (the_idl g) txn symtab commands
                  else (None, ctx, commands)) = (error, ctx1, commands1)"
      and pr: "do_nbctl_print E commands1 g = (commands2, g1)"
  shows "(wait_type g \<noteq> NBCTL_WAIT_NONE \<and> status = TXN_SUCCESS \<and> error = None \<longrightarrow>
            do_nbctl_committed E wait_timeout status ctx txn symtab commands g
              = (case do_nbctl_wait E wait_timeout
                        (ovsdb_idl_txn_get_increment_new_value E (the_idl g))
                        (idl_call IDL_ENABLE_RECONNECT g1) of
                   None \<Rightarrow> None
                 | Some (Some e, g2) \<Rightarrow>
                     Some (RETURN (do_nbctl_out_error (Some e) None commands2 g2))
                 | Some (None, g2) \<Rightarrow> Some (RETURN (do_nbctl_done commands2 g2)))
            \<and> (\<forall>out. do_nbctl_committed E wait_timeout status ctx txn symtab commands g = Some out
                  \<longrightarrow> IDL_ENABLE_RECONNECT \<in> set (calls_since g (do_nbctl_state out))
                     \<and> IDL_RUN \<in> set (calls_since g (do_nbctl_state out))))
       \<and> (\<not> (wait_type g \<noteq> NBCTL_WAIT_NONE \<and> status = TXN_SUCCESS \<and> error = None) \<longrightarrow>
            (\<exists>out. do_nbctl_committed E wait_timeout status ctx txn symtab commands g = Some out
               \<and> set (calls_since g (do_nbctl_state out)) \<subseteq> {TXN_ABORT, TXN_DESTROY}))
       \<and> (status = TXN_UNCHANGED \<longrightarrow>
            (\<exists>out. do_nbctl_committed E wait_timeout status ctx txn symtab commands g = Some out
               \<and> IDL_ENABLE_RECONNECT \<notin> set (calls_since g (do_nbctl_state out))
               \<and> IDL_RUN \<notin> set (calls_since g (do_nbctl_state out))
               \<and> POLL_BLOCK \<notin> set (calls_since g (do_nbctl_state out))))"
proof -
  note u = do_nbctl_committed_unfold [OF post pr, of wait_timeout]
  note g1 = do_nbctl_print_state [OF pr]
  let ?wait = "do_nbctl_wait E wait_timeout (ovsdb_idl_txn_get_increment_new_value E (the_idl g))
                 (idl_call IDL_ENABLE_RECONNECT g1)"
  have A: "do_nbctl_committed E wait_timeout status ctx txn symtab commands g
              = (case ?wait of
                   None \<Rightarrow> None
                 | Some (Some e, g2) \<Rightarrow>
                     Some (RETURN (do_nbctl_out_error (Some e) None commands2 g2))
                 | Some (None, g2) \<Rightarrow> Some (RETURN (do_nbctl_done commands2 g2)))"
    if "wait_type g \<noteq> NBCTL_WAIT_NONE \<and> status = TXN_SUCCESS \<and> error = None"
    using that unfolding u by simp
  have B: "IDL_ENABLE_RECONNECT \<in> set (calls_since g (do_nbctl_state out))
           \<and> IDL_RUN \<in> set (calls_since g (do_nbctl_state out))"
    if c: "wait_type g \<noteq> NBCTL_WAIT_NONE \<and> status = TXN_SUCCESS \<and> error = None"
      and out: "do_nbctl_committed E wait_timeout status ctx txn symtab commands g = Some out"
    for out
  proof -
    from out [unfolded A [OF c]] obtain e g2 where w: "?wait = Some (e, g2)"
      and o: "out = (case e of Some e' \<Rightarrow> RETURN (do_nbctl_out_error (Some e') None commands2 g2)
                      | None \<Rightarrow> RETURN (do_nbctl_done commands2 g2))"
      by (auto split: option.splits)
    from do_nbctl_wait_state [OF w] g1
    obtain calls where "the_idl g2 = the_idl g @ IDL_ENABLE_RECONNECT # IDL_RUN # calls"
      by (auto simp: idl_call_def)
    then show ?thesis
      unfolding o
      by (cases e) (simp_all add: do_nbctl_out_error_def do_nbctl_done_def idl_call_def
                                  calls_since_def)
  qed
  have C: "\<exists>out. do_nbctl_committed E wait_timeout status ctx txn symtab commands g = Some out
               \<and> set (calls_since g (do_nbctl_state out)) \<subseteq> {TXN_ABORT, TXN_DESTROY}"
    if "\<not> (wait_type g \<noteq> NBCTL_WAIT_NONE \<and> status = TXN_SUCCESS \<and> error = None)"
    using that g1 unfolding u
    by (cases status)
       (auto simp: do_nbctl_out_error_def do_nbctl_done_def idl_call_def calls_since_def)
  have D: "\<exists>out. do_nbctl_committed E wait_timeout status ctx txn symtab commands g = Some out
               \<and> IDL_ENABLE_RECONNECT \<notin> set (calls_since g (do_nbctl_state out))
               \<and> IDL_RUN \<notin> set (calls_since g (do_nbctl_state out))
               \<and> POLL_BLOCK \<notin> set (calls_since g (do_nbctl_state out))"
    if "status = TXN_UNCHANGED"
    using C that by fastforce
  show ?thesis
    using A B C D by blast
qed


text \<open>
  The examples: a commit that succeeds against a server whose \<^verbatim>\<open>sb_cfg\<close> counter has
  already reached the new value, and a commit that changes nothing, both with the wait type
  \<^verbatim>\<open>sb\<close>.
\<close>

theorem do_nbctl_wait_entered_witness:
  "(\<exists>out. do_nbctl_committed (example_env (\<lambda>idl. 1) TXN_SUCCESS (\<lambda>idl. 8) (\<lambda>idl. False))
             None TXN_SUCCESS ctx_uninitialized ovsdb_idl_txn_create []
             [example_command (example_add ''a'')] (example_nbctl NBCTL_WAIT_SB) = Some out
          \<and> IDL_ENABLE_RECONNECT
              \<in> set (calls_since (example_nbctl NBCTL_WAIT_SB) (do_nbctl_state out))
          \<and> IDL_RUN \<in> set (calls_since (example_nbctl NBCTL_WAIT_SB) (do_nbctl_state out)))
   \<and> (\<exists>out. do_nbctl_committed (example_env (\<lambda>idl. 1) TXN_SUCCESS (\<lambda>idl. 8) (\<lambda>idl. False))
             None TXN_UNCHANGED ctx_uninitialized ovsdb_idl_txn_create []
             [example_command (example_add ''a'')] (example_nbctl NBCTL_WAIT_SB) = Some out
          \<and> set (calls_since (example_nbctl NBCTL_WAIT_SB) (do_nbctl_state out))
              \<subseteq> {TXN_ABORT, TXN_DESTROY}
          \<and> IDL_RUN \<notin> set (calls_since (example_nbctl NBCTL_WAIT_SB) (do_nbctl_state out)))"
proof -
  let ?E = "example_env (\<lambda>idl. 1) TXN_SUCCESS (\<lambda>idl. 8) (\<lambda>idl. False)"
  let ?g = "example_nbctl NBCTL_WAIT_SB"
  let ?cmds = "[example_command (example_add ''a'')]"
  have w: "wait_type ?g \<noteq> NBCTL_WAIT_NONE"
    by (simp add: example_nbctl_def)
  have post: "(if s = TXN_UNCHANGED \<or> s = TXN_SUCCESS
               then do_nbctl_postprocess ctx_uninitialized (the_idl ?g) ovsdb_idl_txn_create [] ?cmds
               else (None, ctx_uninitialized, ?cmds)) = (None, ctx_uninitialized, ?cmds)" for s
    by (simp add: example_command_def)
  have pr: "do_nbctl_print ?E ?cmds ?g = (?cmds, ?g)"
    by (simp add: example_defs fputs_stdout_def)
  have reached: "cfg_reached ?E (wait_type (idl_call IDL_ENABLE_RECONNECT ?g)) 8
                   (the_idl (idl_call IDL_ENABLE_RECONNECT ?g))"
    by (simp add: cfg_reached_def example_defs cur_cfg_def idl_call_def)
  have V: "ovsdb_idl_txn_get_increment_new_value ?E (the_idl ?g) = 8"
    by (simp add: example_env_def)
  note t1 = do_nbctl_wait_entered [OF post pr, of TXN_SUCCESS None]
  note t2 = do_nbctl_wait_entered [OF post pr, of TXN_UNCHANGED None]
  from t1 w have c: "do_nbctl_committed ?E None TXN_SUCCESS ctx_uninitialized ovsdb_idl_txn_create
                    [] ?cmds ?g
     = Some (RETURN (do_nbctl_done ?cmds (idl_call IDL_RUN (idl_call IDL_ENABLE_RECONNECT ?g))))"
    by (simp add: V do_nbctl_wait_reached [OF reached])
  from t1 w have "\<forall>out. do_nbctl_committed ?E None TXN_SUCCESS ctx_uninitialized
             ovsdb_idl_txn_create [] ?cmds ?g = Some out
          \<longrightarrow> IDL_ENABLE_RECONNECT \<in> set (calls_since ?g (do_nbctl_state out))
            \<and> IDL_RUN \<in> set (calls_since ?g (do_nbctl_state out))"
    by blast
  with c have 1: "\<exists>out. do_nbctl_committed ?E None TXN_SUCCESS ctx_uninitialized
             ovsdb_idl_txn_create [] ?cmds ?g = Some out
          \<and> IDL_ENABLE_RECONNECT \<in> set (calls_since ?g (do_nbctl_state out))
          \<and> IDL_RUN \<in> set (calls_since ?g (do_nbctl_state out))"
    by blast
  from t2 have 2: "\<exists>out. do_nbctl_committed ?E None TXN_UNCHANGED ctx_uninitialized
             ovsdb_idl_txn_create [] ?cmds ?g = Some out
          \<and> set (calls_since ?g (do_nbctl_state out)) \<subseteq> {TXN_ABORT, TXN_DESTROY}
          \<and> IDL_RUN \<notin> set (calls_since ?g (do_nbctl_state out))"
    by auto
  show ?thesis
    using 1 2 by blast
qed

text \<open>
  The claim as it was stated fails for a commit that has to be tried again: with the wait
  type \<^verbatim>\<open>sb\<close> and the status \<^verbatim>\<open>TXN_TRY_AGAIN\<close>, which is not \<^verbatim>\<open>TXN_UNCHANGED\<close>, \<^verbatim>\<open>do_nbctl\<close>
  asks for a retry and the calls after the commit are the abort and the destruction of the
  transaction; the wait loop is not entered.
\<close>

theorem do_nbctl_wait_entered_counterexample:
  "wait_type (example_nbctl NBCTL_WAIT_SB) \<noteq> NBCTL_WAIT_NONE
   \<and> ovsdb_idl_txn_commit_status
        (example_env (\<lambda>idl. 1) TXN_TRY_AGAIN (\<lambda>idl. 0) (\<lambda>idl. False))
        [TXN_CREATE,
         TXN_COMMIT_BLOCK
           \<lparr>txn_dry_run = False, txn_comment = ''ovs-nbctl: example'',
            txn_ops = [COMMAND_OP ''a''],
            txn_increment = Some (ROW_OF_SNAPSHOT \<lparr>nb_cfg = 7, sb_cfg = 0, hv_cfg = 0\<rparr>,
                                  NB_GLOBAL_COL_NB_CFG, False)\<rparr>] \<noteq> TXN_UNCHANGED
   \<and> do_nbctl (example_env (\<lambda>idl. 1) TXN_TRY_AGAIN (\<lambda>idl. 0) (\<lambda>idl. False)) ''example''
        [example_command (example_add ''a'')] None (example_nbctl NBCTL_WAIT_SB)
       = Some (RETURN
           \<lparr>ret_error = None, ret_retry = Some True,
            ret_commands = [example_command (example_add ''a'')],
            ret_nbctl = (example_nbctl NBCTL_WAIT_SB)
              \<lparr>the_idl :=
                 [TXN_CREATE,
                  TXN_COMMIT_BLOCK
                    \<lparr>txn_dry_run = False, txn_comment = ''ovs-nbctl: example'',
                     txn_ops = [COMMAND_OP ''a''],
                     txn_increment = Some (ROW_OF_SNAPSHOT \<lparr>nb_cfg = 7, sb_cfg = 0, hv_cfg = 0\<rparr>,
                                           NB_GLOBAL_COL_NB_CFG, False)\<rparr>,
                  TXN_ABORT, TXN_DESTROY]\<rparr>\<rparr>)"
  by (simp add: do_nbctl_defs example_defs Let_def)


text \<open>
  Claim C6. Let the commit have succeeded with a wait type set and no postprocess error,
  let \<open>V\<close> be the new value of the counter, and let \<open>idl\<close> be the calls made when the wait
  loop starts. Every round of the loop starts with \<^verbatim>\<open>ovsdb_idl_run\<close> and then reads the
  counter of every \<^verbatim>\<open>NB_Global\<close> row, \<^verbatim>\<open>sb_cfg\<close> for the wait type \<^verbatim>\<open>sb\<close> and \<^verbatim>\<open>hv_cfg\<close> for
  the wait type \<^verbatim>\<open>hv\<close>. If in the first \<open>n\<close> rounds the counter has not been reached and the
  deadline has not passed, then: if the counter is reached in the next round, \<^verbatim>\<open>do_nbctl\<close>
  returns success right after the \<^verbatim>\<open>ovsdb_idl_run\<close> of that round; and if it is not, and
  there is a timer that has expired at the end of that round, \<^verbatim>\<open>do_nbctl\<close> returns the error
  \<open>timeout expired\<close>.
\<close>

theorem do_nbctl_convergence_wait:
  assumes "wait_type g \<noteq> NBCTL_WAIT_NONE"
    and "status = TXN_SUCCESS"
    and post: "do_nbctl_postprocess ctx (the_idl g) txn symtab commands = (None, ctx1, commands1)"
    and pr: "do_nbctl_print E commands1 g = (commands2, g1)"
    and V: "V = ovsdb_idl_txn_get_increment_new_value E (the_idl g)"
    and idl: "idl = the_idl g @ [IDL_ENABLE_RECONNECT]"
    and before: "\<forall>k<n. \<not> cfg_reached E (wait_type g) V (idl @ wait_rounds k wait_timeout)
                       \<and> \<not> deadline_passed E wait_timeout (idl @ wait_rounds k wait_timeout)"
  shows "(cfg_reached E (wait_type g) V (idl @ wait_rounds n wait_timeout) \<longrightarrow>
            do_nbctl_committed E wait_timeout status ctx txn symtab commands g
              = Some (RETURN
                  \<lparr>ret_error = None, ret_retry = Some False, ret_commands = commands2,
                   ret_nbctl = g1\<lparr>the_idl := idl @ wait_rounds n wait_timeout
                                               @ [IDL_RUN, TXN_DESTROY]\<rparr>\<rparr>))
       \<and> (\<not> cfg_reached E (wait_type g) V (idl @ wait_rounds n wait_timeout)
          \<and> deadline_passed E wait_timeout (idl @ wait_rounds n wait_timeout) \<longrightarrow>
            do_nbctl_committed E wait_timeout status ctx txn symtab commands g
              = Some (RETURN
                  \<lparr>ret_error = Some ''timeout expired'', ret_retry = None,
                   ret_commands = map (\<lambda>c. c\<lparr>cmd_output := [], cmd_table := None\<rparr>) commands2,
                   ret_nbctl = g1\<lparr>the_idl := idl @ wait_rounds (Suc n) wait_timeout
                                               @ [TXN_ABORT, TXN_DESTROY]\<rparr>\<rparr>))
       \<and> (cfg_reached E (wait_type g) V (idl @ wait_rounds n wait_timeout) \<longleftrightarrow>
            (\<exists>nb \<in> set (nbrec_nb_global_rows E (idl @ wait_rounds n wait_timeout @ [IDL_RUN])).
               word_sle V (if wait_type g = NBCTL_WAIT_SB then sb_cfg nb else hv_cfg nb)))
       \<and> (deadline_passed E wait_timeout (idl @ wait_rounds n wait_timeout) \<longleftrightarrow>
            (\<exists>t. wait_timeout = Some t
               \<and> timer_expired E t (idl @ wait_rounds (Suc n) wait_timeout)))"
proof -
  note g1 = do_nbctl_print_state [OF pr]
  let ?g = "idl_call IDL_ENABLE_RECONNECT g1"
  let ?gn = "?g\<lparr>the_idl := the_idl ?g @ wait_rounds n wait_timeout\<rparr>"
  have e1: "the_idl g1 = the_idl g" "wait_type g1 = wait_type g"
    using g1 by (simp_all add: same_globals_def)
  have post': "(if status = TXN_UNCHANGED \<or> status = TXN_SUCCESS
                  then do_nbctl_postprocess ctx (the_idl g) txn symtab commands
                  else (None, ctx, commands)) = (None, ctx1, commands1)"
    using assms(2) post by simp
  have u: "do_nbctl_committed E wait_timeout status ctx txn symtab commands g
             = (case do_nbctl_wait E wait_timeout V ?gn of
                  None \<Rightarrow> None
                | Some (Some e, g2) \<Rightarrow>
                    Some (RETURN (do_nbctl_out_error (Some e) None commands2 g2))
                | Some (None, g2) \<Rightarrow> Some (RETURN (do_nbctl_done commands2 g2)))"
  proof -
    have w: "do_nbctl_wait E wait_timeout V ?g = do_nbctl_wait E wait_timeout V ?gn"
    proof (rule do_nbctl_wait_rounds)
      show "\<forall>k<n. \<not> cfg_reached E (wait_type ?g) V (the_idl ?g @ wait_rounds k wait_timeout)
                  \<and> \<not> deadline_passed E wait_timeout (the_idl ?g @ wait_rounds k wait_timeout)"
        using before by (simp add: idl e1 idl_call_def)
    qed
    show ?thesis
      unfolding do_nbctl_committed_unfold [OF post' pr, of wait_timeout] V [symmetric] w [symmetric]
      using assms(1,2) by simp
  qed
  have A: "do_nbctl_committed E wait_timeout status ctx txn symtab commands g
              = Some (RETURN
                  \<lparr>ret_error = None, ret_retry = Some False, ret_commands = commands2,
                   ret_nbctl = g1\<lparr>the_idl := idl @ wait_rounds n wait_timeout
                                               @ [IDL_RUN, TXN_DESTROY]\<rparr>\<rparr>)"
    if r: "cfg_reached E (wait_type g) V (idl @ wait_rounds n wait_timeout)"
  proof -
    have "do_nbctl_wait E wait_timeout V ?gn = Some (None, idl_call IDL_RUN ?gn)"
      using r by (intro do_nbctl_wait_reached) (simp add: idl e1 idl_call_def)
    then show ?thesis
      unfolding u by (simp add: do_nbctl_done_def idl_call_def idl e1)
  qed
  have B: "do_nbctl_committed E wait_timeout status ctx txn symtab commands g
              = Some (RETURN
                  \<lparr>ret_error = Some ''timeout expired'', ret_retry = None,
                   ret_commands = map (\<lambda>c. c\<lparr>cmd_output := [], cmd_table := None\<rparr>) commands2,
                   ret_nbctl = g1\<lparr>the_idl := idl @ wait_rounds (Suc n) wait_timeout
                                               @ [TXN_ABORT, TXN_DESTROY]\<rparr>\<rparr>)"
    if r: "\<not> cfg_reached E (wait_type g) V (idl @ wait_rounds n wait_timeout)"
      and d: "deadline_passed E wait_timeout (idl @ wait_rounds n wait_timeout)"
  proof -
    have "do_nbctl_wait E wait_timeout V ?gn
            = Some (Some ''timeout expired'', ?gn\<lparr>the_idl := the_idl ?gn @ wait_round wait_timeout\<rparr>)"
      using r d by (intro do_nbctl_wait_expired) (simp_all add: idl e1 idl_call_def)
    then show ?thesis
      unfolding u by (simp add: do_nbctl_out_error_def idl_call_def idl e1 wait_rounds_Suc)
  qed
  have C: "cfg_reached E (wait_type g) V (idl @ wait_rounds n wait_timeout) \<longleftrightarrow>
            (\<exists>nb \<in> set (nbrec_nb_global_rows E (idl @ wait_rounds n wait_timeout @ [IDL_RUN])).
               word_sle V (if wait_type g = NBCTL_WAIT_SB then sb_cfg nb else hv_cfg nb))"
    by (simp add: cfg_reached_def cur_cfg_def list_ex_iff)
  have D: "deadline_passed E wait_timeout (idl @ wait_rounds n wait_timeout) \<longleftrightarrow>
            (\<exists>t. wait_timeout = Some t
               \<and> timer_expired E t (idl @ wait_rounds (Suc n) wait_timeout))"
    by (simp add: deadline_passed_def wait_rounds_Suc split: option.splits)
  show ?thesis
    using A B C D by blast
qed


text \<open>
  The examples: a server whose \<^verbatim>\<open>sb_cfg\<close> counter is 6 at first and goes up by one with
  every \<^verbatim>\<open>poll_block\<close>, so that the value 8 is seen in the third round; and a server whose
  counter stays at 0, with a timer that has expired after the second \<^verbatim>\<open>poll_block\<close>.
\<close>

theorem do_nbctl_convergence_wait_witness:
  "do_nbctl_committed
      (example_env (\<lambda>idl. 1) TXN_SUCCESS (\<lambda>idl. 6 + of_nat (count_list idl POLL_BLOCK))
         (\<lambda>idl. False))
      None TXN_SUCCESS ctx_uninitialized ovsdb_idl_txn_create []
      [example_command (example_add ''a'')] (example_nbctl NBCTL_WAIT_SB)
     = Some (RETURN
         \<lparr>ret_error = None, ret_retry = Some False,
          ret_commands = [example_command (example_add ''a'')],
          ret_nbctl = (example_nbctl NBCTL_WAIT_SB)
            \<lparr>the_idl := [IDL_ENABLE_RECONNECT, IDL_RUN, IDL_WAIT, POLL_BLOCK,
                          IDL_RUN, IDL_WAIT, POLL_BLOCK, IDL_RUN, TXN_DESTROY]\<rparr>\<rparr>)
   \<and> do_nbctl_committed
        (example_env (\<lambda>idl. 1) TXN_SUCCESS (\<lambda>idl. 0) (\<lambda>idl. 2 \<le> count_list idl POLL_BLOCK))
        (Some \<lparr>timer_set_at = 0, timer_duration = 2000\<rparr>) TXN_SUCCESS ctx_uninitialized
        ovsdb_idl_txn_create [] [example_command (example_add ''a'')]
        (example_nbctl NBCTL_WAIT_SB)
     = Some (RETURN
         \<lparr>ret_error = Some ''timeout expired'', ret_retry = None,
          ret_commands = [example_command (example_add ''a'')],
          ret_nbctl = (example_nbctl NBCTL_WAIT_SB)
            \<lparr>the_idl := [IDL_ENABLE_RECONNECT, IDL_RUN, IDL_WAIT, TIMER_WAIT, POLL_BLOCK,
                          IDL_RUN, IDL_WAIT, TIMER_WAIT, POLL_BLOCK, TXN_ABORT, TXN_DESTROY]\<rparr>\<rparr>)"
proof -
  let ?up = "example_env (\<lambda>idl. 1) TXN_SUCCESS (\<lambda>idl. 6 + of_nat (count_list idl POLL_BLOCK))
               (\<lambda>idl. False)"
  let ?stuck = "example_env (\<lambda>idl. 1) TXN_SUCCESS (\<lambda>idl. 0)
                  (\<lambda>idl. 2 \<le> count_list idl POLL_BLOCK)"
  let ?t = "Some \<lparr>timer_set_at = 0, timer_duration = 2000\<rparr>"
  let ?g = "example_nbctl NBCTL_WAIT_SB"
  let ?cmds = "[example_command (example_add ''a'')]"
  let ?idl = "[IDL_ENABLE_RECONNECT] :: string idl_call list"
  have w: "wait_type ?g \<noteq> NBCTL_WAIT_NONE" and idl: "?idl = the_idl ?g @ [IDL_ENABLE_RECONNECT]"
    by (simp_all add: example_nbctl_def)
  have post: "do_nbctl_postprocess ctx_uninitialized (the_idl ?g) ovsdb_idl_txn_create [] ?cmds
                = (None, ctx_uninitialized, ?cmds)"
    by (simp add: example_command_def)
  have pr: "do_nbctl_print E ?cmds ?g = (?cmds, ?g)" for E :: "(string, string, unit) ovsdb_env"
    by (simp add: example_defs fputs_stdout_def)
  have V: "8 = ovsdb_idl_txn_get_increment_new_value ?up (the_idl ?g)"
    "8 = ovsdb_idl_txn_get_increment_new_value ?stuck (the_idl ?g)"
    by (simp_all add: example_env_def)
  have r2 [simp]: "wait_rounds 2 wt = wait_round wt @ wait_round wt"
    "wait_rounds 1 wt = wait_round wt" for wt
    by (simp_all add: wait_rounds_def numeral_2_eq_2)
  have before1: "\<forall>k<2. \<not> cfg_reached ?up (wait_type ?g) 8 (?idl @ wait_rounds k None)
                       \<and> \<not> deadline_passed ?up None (?idl @ wait_rounds k None)"
    by (simp add: less_Suc_eq numeral_2_eq_2 cfg_reached_def deadline_passed_def wait_round_def
          wait_rounds_def example_defs cur_cfg_def word_sle_eq)
  have at1: "cfg_reached ?up (wait_type ?g) 8 (?idl @ wait_rounds 2 None)"
    by (simp add: cfg_reached_def wait_round_def example_defs cur_cfg_def word_sle_eq)
  have before2: "\<forall>k<1. \<not> cfg_reached ?stuck (wait_type ?g) 8 (?idl @ wait_rounds k ?t)
                       \<and> \<not> deadline_passed ?stuck ?t (?idl @ wait_rounds k ?t)"
    by (simp add: cfg_reached_def deadline_passed_def wait_round_def
          wait_rounds_def example_defs cur_cfg_def word_sle_eq)
  have at2: "\<not> cfg_reached ?stuck (wait_type ?g) 8 (?idl @ wait_rounds 1 ?t)
             \<and> deadline_passed ?stuck ?t (?idl @ wait_rounds 1 ?t)"
    by (simp add: cfg_reached_def deadline_passed_def wait_round_def wait_rounds_def
          example_defs cur_cfg_def word_sle_eq)
  note t1 = do_nbctl_convergence_wait [OF w refl post pr V(1) idl before1]
  note t2 = do_nbctl_convergence_wait [OF w refl post pr V(2) idl before2]
  have e: "map (\<lambda>c. c\<lparr>cmd_output := [], cmd_table := None\<rparr>) ?cmds = ?cmds"
    by (simp add: example_command_def)
  have rounds: "?idl @ wait_rounds 2 None @ [IDL_RUN, TXN_DESTROY]
      = [IDL_ENABLE_RECONNECT, IDL_RUN, IDL_WAIT, POLL_BLOCK, IDL_RUN, IDL_WAIT, POLL_BLOCK,
         IDL_RUN, TXN_DESTROY]"
    "?idl @ wait_rounds (Suc 1) ?t @ [TXN_ABORT, TXN_DESTROY]
      = [IDL_ENABLE_RECONNECT, IDL_RUN, IDL_WAIT, TIMER_WAIT, POLL_BLOCK,
         IDL_RUN, IDL_WAIT, TIMER_WAIT, POLL_BLOCK, TXN_ABORT, TXN_DESTROY]"
    by (simp_all add: wait_round_def wait_rounds_def numeral_2_eq_2)
  from t1 at1 have a: "do_nbctl_committed ?up None TXN_SUCCESS ctx_uninitialized
      ovsdb_idl_txn_create [] ?cmds ?g
     = Some (RETURN
         \<lparr>ret_error = None, ret_retry = Some False, ret_commands = ?cmds,
          ret_nbctl = ?g\<lparr>the_idl := ?idl @ wait_rounds 2 None @ [IDL_RUN, TXN_DESTROY]\<rparr>\<rparr>)"
    by blast
  from t2 at2 have b: "do_nbctl_committed ?stuck ?t TXN_SUCCESS ctx_uninitialized
      ovsdb_idl_txn_create [] ?cmds ?g
     = Some (RETURN
         \<lparr>ret_error = Some ''timeout expired'', ret_retry = None,
          ret_commands = map (\<lambda>c. c\<lparr>cmd_output := [], cmd_table := None\<rparr>) ?cmds,
          ret_nbctl = ?g\<lparr>the_idl := ?idl @ wait_rounds (Suc 1) ?t @ [TXN_ABORT, TXN_DESTROY]\<rparr>\<rparr>)"
    by blast
  show ?thesis
    using a b unfolding rounds e by simp
qed

section \<open>The retry loop\<close>



lemma main_loop_block_state:
  "(calls_since g (main_loop_block E seqno g) = []
      \<or> calls_since g (main_loop_block E seqno g) = [IDL_WAIT, POLL_BLOCK])
   \<and> same_globals g (main_loop_block E seqno g)
   \<and> (\<exists>calls. the_idl (main_loop_block E seqno g) = the_idl g @ calls
          \<and> set calls \<subseteq> {IDL_WAIT, POLL_BLOCK})"
  by (simp add: main_loop_block_def calls_since_def idl_call_def same_globals_def)











lemmas main_loop_defs = main_loop_def main_loop_body_def main_loop_block_def





section \<open>The row of \<^verbatim>\<open>NB_Global\<close>\<close>

text \<open>
  Claim C9. The context that \<^verbatim>\<open>do_nbctl\<close> hands to the first \<^verbatim>\<open>run\<close> callback holds the
  transaction as \<^verbatim>\<open>do_nbctl\<close> has prepared it, and a first callback that reports an error
  makes \<^verbatim>\<open>do_nbctl\<close> return that error. When the snapshot has no \<^verbatim>\<open>NB_Global\<close> row, the
  only operation of that transaction is the insertion of one, and the row \<^verbatim>\<open>nb\<close> is the new
  row; when the snapshot has rows, the transaction has no operation and \<^verbatim>\<open>nb\<close> is the first
  row. When a wait type is set, the transaction asks for an increment of the column
  \<^verbatim>\<open>nb_cfg\<close> of the row \<^verbatim>\<open>nb\<close>, with \<^verbatim>\<open>force_wait\<close> as its \<^verbatim>\<open>force\<close> flag; when none is
  set, it asks for no increment.
\<close>

theorem do_nbctl_nb_global_row:
  "ctx_txn (ctl_context_init_command (do_nbctl_ctx E args (idl_call TXN_CREATE g))
              (c\<lparr>cmd_output := [], cmd_table := None\<rparr>))
     = Some (do_nbctl_txn E args (idl_call TXN_CREATE g))
   \<and> (\<forall>f e. run (cmd_syntax c) = Some f
          \<and> ctx_error (f (ctl_context_init_command (do_nbctl_ctx E args (idl_call TXN_CREATE g))
                            (c\<lparr>cmd_output := [], cmd_table := None\<rparr>))) = Some e \<longrightarrow>
          (\<exists>r. do_nbctl E args (c # cs) wait_timeout g = Some (RETURN r) \<and> ret_error r = Some e))
   \<and> (nbrec_nb_global_rows E (the_idl g @ [TXN_CREATE]) = [] \<longrightarrow>
        txn_ops (do_nbctl_txn E args (idl_call TXN_CREATE g)) = [INSERT_NB_GLOBAL]
        \<and> (wait_type g \<noteq> NBCTL_WAIT_NONE \<longrightarrow>
             txn_increment (do_nbctl_txn E args (idl_call TXN_CREATE g))
               = Some (ROW_INSERTED, NB_GLOBAL_COL_NB_CFG, force_wait g)))
   \<and> (\<forall>row rows. nbrec_nb_global_rows E (the_idl g @ [TXN_CREATE]) = row # rows \<longrightarrow>
        txn_ops (do_nbctl_txn E args (idl_call TXN_CREATE g)) = []
        \<and> (wait_type g \<noteq> NBCTL_WAIT_NONE \<longrightarrow>
             txn_increment (do_nbctl_txn E args (idl_call TXN_CREATE g))
               = Some (ROW_OF_SNAPSHOT row, NB_GLOBAL_COL_NB_CFG, force_wait g)))
   \<and> (wait_type g = NBCTL_WAIT_NONE \<longrightarrow>
        txn_increment (do_nbctl_txn E args (idl_call TXN_CREATE g)) = None)"
proof -
  let ?g1 = "idl_call TXN_CREATE g"
  let ?c = "c\<lparr>cmd_output := [], cmd_table := None\<rparr>"
  have A: "ctx_txn (ctl_context_init_command (do_nbctl_ctx E args ?g1) ?c)
             = Some (do_nbctl_txn E args ?g1)"
    by (simp add: ctl_context_init_command_def do_nbctl_ctx_def ctl_context_init_def Let_def)
  have B: "\<exists>r. do_nbctl E args (c # cs) wait_timeout g = Some (RETURN r) \<and> ret_error r = Some e"
    if "run (cmd_syntax c) = Some f"
      and "ctx_error (f (ctl_context_init_command (do_nbctl_ctx E args ?g1) ?c)) = Some e"
    for f e
  proof -
    have "fst (do_nbctl_run (do_nbctl_ctx E args ?g1) (?c # do_nbctl_reset cs)) = Some e"
      by (simp add: that Let_def split: prod.splits)
    then obtain t ctx1 cmds2 where
      "do_nbctl_run (do_nbctl_ctx E args ?g1) (do_nbctl_reset (c # cs)) = (Some e, t, ctx1, cmds2)"
      by (cases "do_nbctl_run (do_nbctl_ctx E args ?g1) (?c # do_nbctl_reset cs)")
         (auto simp: do_nbctl_reset_def)
    then show ?thesis
      by (simp add: do_nbctl_def Let_def do_nbctl_out_error_def)
  qed
  have C: "txn_ops (do_nbctl_txn E args ?g1) = [INSERT_NB_GLOBAL]
        \<and> (wait_type g \<noteq> NBCTL_WAIT_NONE \<longrightarrow>
             txn_increment (do_nbctl_txn E args ?g1)
               = Some (ROW_INSERTED, NB_GLOBAL_COL_NB_CFG, force_wait g))"
    if "nbrec_nb_global_rows E (the_idl g @ [TXN_CREATE]) = []"
    using that
    by (simp add: do_nbctl_txn_def nbrec_nb_global_first_def ovsdb_idl_txn_create_def
          idl_call_def Let_def)
  have D: "txn_ops (do_nbctl_txn E args ?g1) = []
        \<and> (wait_type g \<noteq> NBCTL_WAIT_NONE \<longrightarrow>
             txn_increment (do_nbctl_txn E args ?g1)
               = Some (ROW_OF_SNAPSHOT row, NB_GLOBAL_COL_NB_CFG, force_wait g))"
    if "nbrec_nb_global_rows E (the_idl g @ [TXN_CREATE]) = row # rows" for row rows
    using that
    by (simp add: do_nbctl_txn_def nbrec_nb_global_first_def ovsdb_idl_txn_create_def
          idl_call_def Let_def)
  have F: "txn_increment (do_nbctl_txn E args ?g1) = None" if "wait_type g = NBCTL_WAIT_NONE"
    using that
    by (simp add: do_nbctl_txn_def nbrec_nb_global_first_def ovsdb_idl_txn_create_def
          idl_call_def Let_def split: list.splits)
  show ?thesis
    using A B C D F by blast
qed

text \<open>
  The examples: a database without an \<^verbatim>\<open>NB_Global\<close> row, the wait type \<^verbatim>\<open>sb\<close>, and a
  command that reports the transaction it is given; a database with one row and the wait
  type \<^verbatim>\<open>hv\<close>; the same database and no wait type.
\<close>

theorem do_nbctl_nb_global_row_witness:
  "nbrec_nb_global_rows
      ((example_env (\<lambda>idl. 1) TXN_SUCCESS (\<lambda>idl. 0) (\<lambda>idl. False))
         \<lparr>nbrec_nb_global_rows := \<lambda>idl. []\<rparr>)
      (the_idl (example_nbctl NBCTL_WAIT_SB) @ [TXN_CREATE]) = []
   \<and> wait_type (example_nbctl NBCTL_WAIT_SB) \<noteq> NBCTL_WAIT_NONE
   \<and> run (cmd_syntax (example_command example_probe)) = Some example_probe
   \<and> (\<exists>r. do_nbctl
             ((example_env (\<lambda>idl. 1) TXN_SUCCESS (\<lambda>idl. 0) (\<lambda>idl. False))
                \<lparr>nbrec_nb_global_rows := \<lambda>idl. []\<rparr>)
             ''example'' [example_command example_probe] None (example_nbctl NBCTL_WAIT_SB)
           = Some (RETURN r)
         \<and> ret_error r = Some ''row inserted, increment of nb_cfg of the new row'')
   \<and> nbrec_nb_global_rows (example_env (\<lambda>idl. 1) TXN_SUCCESS (\<lambda>idl. 0) (\<lambda>idl. False))
         (the_idl (example_nbctl NBCTL_WAIT_HV) @ [TXN_CREATE])
       = [\<lparr>nb_cfg = 7, sb_cfg = 0, hv_cfg = 0\<rparr>]
   \<and> wait_type (example_nbctl NBCTL_WAIT_HV) \<noteq> NBCTL_WAIT_NONE
   \<and> txn_ops (do_nbctl_txn (example_env (\<lambda>idl. 1) TXN_SUCCESS (\<lambda>idl. 0) (\<lambda>idl. False))
                 ''example'' (idl_call TXN_CREATE (example_nbctl NBCTL_WAIT_HV))) = []
   \<and> txn_increment
         (do_nbctl_txn (example_env (\<lambda>idl. 1) TXN_SUCCESS (\<lambda>idl. 0) (\<lambda>idl. False))
            ''example'' (idl_call TXN_CREATE (example_nbctl NBCTL_WAIT_HV)))
       = Some (ROW_OF_SNAPSHOT \<lparr>nb_cfg = 7, sb_cfg = 0, hv_cfg = 0\<rparr>, NB_GLOBAL_COL_NB_CFG,
               False)
   \<and> wait_type (example_nbctl NBCTL_WAIT_NONE) = NBCTL_WAIT_NONE
   \<and> txn_increment
         (do_nbctl_txn (example_env (\<lambda>idl. 1) TXN_SUCCESS (\<lambda>idl. 0) (\<lambda>idl. False))
            ''example'' (idl_call TXN_CREATE (example_nbctl NBCTL_WAIT_NONE)))
       = None"
proof -
  let ?E = "(example_env (\<lambda>idl. 1) TXN_SUCCESS (\<lambda>idl. 0) (\<lambda>idl. False))
              \<lparr>nbrec_nb_global_rows := \<lambda>idl. []\<rparr>"
  let ?g = "example_nbctl NBCTL_WAIT_SB"
  let ?c = "example_command example_probe"
  note t = do_nbctl_nb_global_row [of ?E "''example''" ?g ?c "[]" None]
  have rows: "nbrec_nb_global_rows ?E (the_idl ?g @ [TXN_CREATE]) = []"
    and w: "wait_type ?g \<noteq> NBCTL_WAIT_NONE"
    and run: "run (cmd_syntax ?c) = Some example_probe"
    by (simp_all add: example_defs)
  from t rows w have txn:
    "ctx_txn (ctl_context_init_command (do_nbctl_ctx ?E ''example'' (idl_call TXN_CREATE ?g))
                (?c\<lparr>cmd_output := [], cmd_table := None\<rparr>))
       = Some (do_nbctl_txn ?E ''example'' (idl_call TXN_CREATE ?g))"
    "txn_ops (do_nbctl_txn ?E ''example'' (idl_call TXN_CREATE ?g)) = [INSERT_NB_GLOBAL]"
    "txn_increment (do_nbctl_txn ?E ''example'' (idl_call TXN_CREATE ?g))
       = Some (ROW_INSERTED, NB_GLOBAL_COL_NB_CFG, force_wait ?g)"
    by blast+
  have "ctx_error (example_probe
          (ctl_context_init_command (do_nbctl_ctx ?E ''example'' (idl_call TXN_CREATE ?g))
             (?c\<lparr>cmd_output := [], cmd_table := None\<rparr>)))
        = Some ''row inserted, increment of nb_cfg of the new row''"
    by (simp add: example_probe_def txn)
  with t run have "\<exists>r. do_nbctl ?E ''example'' [?c] None ?g = Some (RETURN r)
         \<and> ret_error r = Some ''row inserted, increment of nb_cfg of the new row''"
    by blast
  then have first: "nbrec_nb_global_rows ?E (the_idl ?g @ [TXN_CREATE]) = []
      \<and> wait_type ?g \<noteq> NBCTL_WAIT_NONE
      \<and> run (cmd_syntax ?c) = Some example_probe
      \<and> (\<exists>r. do_nbctl ?E ''example'' [?c] None ?g = Some (RETURN r)
            \<and> ret_error r = Some ''row inserted, increment of nb_cfg of the new row'')"
    using rows w run by blast
  let ?F = "example_env (\<lambda>idl. 1) TXN_SUCCESS (\<lambda>idl. 0) (\<lambda>idl. False)"
  let ?h = "example_nbctl NBCTL_WAIT_HV"
  let ?n = "example_nbctl NBCTL_WAIT_NONE"
  let ?row = "\<lparr>nb_cfg = 7, sb_cfg = 0, hv_cfg = 0\<rparr>"
  note u = do_nbctl_nb_global_row [of ?F "''example''" ?h ?c "[]" None]
  note v = do_nbctl_nb_global_row [of ?F "''example''" ?n ?c "[]" None]
  have rows2: "nbrec_nb_global_rows ?F (the_idl ?h @ [TXN_CREATE]) = ?row # []"
    and w2: "wait_type ?h \<noteq> NBCTL_WAIT_NONE"
    and f2: "force_wait ?h = False"
    and w3: "wait_type ?n = NBCTL_WAIT_NONE"
    by (simp_all add: example_defs)
  from u rows2 w2 have
    "txn_ops (do_nbctl_txn ?F ''example'' (idl_call TXN_CREATE ?h)) = []"
    "txn_increment (do_nbctl_txn ?F ''example'' (idl_call TXN_CREATE ?h))
       = Some (ROW_OF_SNAPSHOT ?row, NB_GLOBAL_COL_NB_CFG, force_wait ?h)"
    by blast+
  then have second: "nbrec_nb_global_rows ?F (the_idl ?h @ [TXN_CREATE]) = [?row]
      \<and> wait_type ?h \<noteq> NBCTL_WAIT_NONE
      \<and> txn_ops (do_nbctl_txn ?F ''example'' (idl_call TXN_CREATE ?h)) = []
      \<and> txn_increment (do_nbctl_txn ?F ''example'' (idl_call TXN_CREATE ?h))
          = Some (ROW_OF_SNAPSHOT ?row, NB_GLOBAL_COL_NB_CFG, False)"
    using rows2 w2 f2 by simp
  from v w3 have third: "wait_type ?n = NBCTL_WAIT_NONE
      \<and> txn_increment (do_nbctl_txn ?F ''example'' (idl_call TXN_CREATE ?n)) = None"
    by blast
  show ?thesis
    using first second third by blast
qed

section \<open>The timer and the retry loop\<close>





section \<open>The \<^verbatim>\<open>sync\<close> command\<close>





section \<open>Requests to the daemon\<close>

lemma reset_global_state_settings:
  "global_settings (reset_global_state E g)
     = (False, False, NBCTL_WAIT_NONE, False, 0, table_style_default E)"
  by (simp add: global_settings_def reset_global_state_def)

lemma reset_global_state_with_settings:
  "reset_global_state E (with_settings v g) = reset_global_state E g"
  by (cases v) (simp add: with_settings_def reset_global_state_def)

lemma with_settings_global_settings:
  "with_settings (global_settings g) g = g"
  by (simp add: with_settings_def global_settings_def)

lemma handle_main_loop_option_settings:
  assumes "global_settings h = global_settings g"
  shows "\<exists>error handled g1 h1.
           handle_main_loop_option L opt arg g = (error, handled, g1)
         \<and> handle_main_loop_option L opt arg h = (error, handled, h1)
         \<and> global_settings h1 = global_settings g1"
  using assms
  by (cases opt)
     (auto simp: handle_main_loop_option_def global_settings_def Let_def split: prod.splits)

lemma server_parse_options_settings:
  assumes "global_settings h = global_settings g"
  shows "\<exists>error local_options1 g2 h2.
           server_parse_options L steps local_options g = (error, local_options1, g2)
         \<and> server_parse_options L steps local_options h = (error, local_options1, h2)
         \<and> global_settings h2 = global_settings g2"
  using assms
proof (induction steps arbitrary: local_options g h)
  case Nil
  then show ?case by simp
next
  case (Cons step rest)
  obtain error handled g1 h1 where
    hg: "handle_main_loop_option L (opt_code step) (opt_arg step) g = (error, handled, g1)"
    and hh: "handle_main_loop_option L (opt_code step) (opt_arg step) h = (error, handled, h1)"
    and s1: "global_settings h1 = global_settings g1"
    using handle_main_loop_option_settings [OF Cons.prems] by blast
  have s2: "global_settings (h1\<lparr>table_style := table_option L step (table_style h1)\<rparr>)
              = global_settings (g1\<lparr>table_style := table_option L step (table_style g1)\<rparr>)"
    using s1 by (simp add: global_settings_def)
  have s3: "global_settings (h1\<lparr>vlog_options := vlog_options h1 @ [(opt_name step, opt_arg step)]\<rparr>)
              = global_settings (g1\<lparr>vlog_options := vlog_options g1 @ [(opt_name step, opt_arg step)]\<rparr>)"
    using s1 by (simp add: global_settings_def)
  note same = Cons.IH [OF s1]
  note table = Cons.IH [OF s2]
  note logging = Cons.IH [OF s3]
  show ?case
  proof (cases "error \<noteq> None")
    case True
    then show ?thesis using s1 by (simp add: hg hh)
  next
    case False
    note no_error = this
    show ?thesis
    proof (cases handled)
      case True
      then show ?thesis using no_error same by (simp add: hg hh)
    next
      case False
      obtain error1 local_options1 where
        a: "add_local_option (opt_name step) (opt_arg step) local_options
              = (error1, local_options1)"
        by (cases "add_local_option (opt_name step) (opt_arg step) local_options")
      obtain ea la ga ha where
        sa: "server_parse_options L rest local_options g1 = (ea, la, ga)"
            "server_parse_options L rest local_options h1 = (ea, la, ha)"
            "global_settings ha = global_settings ga"
        using same [of local_options] by blast
      obtain eb lb gb hb where
        sb: "server_parse_options L rest local_options1 g1 = (eb, lb, gb)"
            "server_parse_options L rest local_options1 h1 = (eb, lb, hb)"
            "global_settings hb = global_settings gb"
        using same [of local_options1] by blast
      obtain ec lc gc hc where
        sc: "server_parse_options L rest local_options
               (g1\<lparr>table_style := table_option L step (table_style g1)\<rparr>) = (ec, lc, gc)"
            "server_parse_options L rest local_options
               (h1\<lparr>table_style := table_option L step (table_style h1)\<rparr>) = (ec, lc, hc)"
            "global_settings hc = global_settings gc"
        using table [of local_options] by blast
      obtain ed ld gd hd where
        sd: "server_parse_options L rest local_options
               (g1\<lparr>vlog_options := vlog_options g1 @ [(opt_name step, opt_arg step)]\<rparr>)
               = (ed, ld, gd)"
            "server_parse_options L rest local_options
               (h1\<lparr>vlog_options := vlog_options h1 @ [(opt_name step, opt_arg step)]\<rparr>)
               = (ed, ld, hd)"
            "global_settings hd = global_settings gd"
        using logging [of local_options] by blast
      show ?thesis
        using no_error False s1
        by (auto simp: hg hh a sa sb sc sd split: getopt_code.splits)
    qed
  qed
qed



lemma handle_main_loop_option_effect:
  assumes "handle_main_loop_option L opt arg g = (None, handled, g1)"
  shows "handled \<longleftrightarrow> opt \<in> {OPT_NO_WAIT, OPT_WAIT, OPT_DRY_RUN, OPT_ONELINE, OPT_TIMEOUT}"
    and "oneline g1 \<longleftrightarrow> oneline g \<or> opt = OPT_ONELINE"
    and "dry_run g1 \<longleftrightarrow> dry_run g \<or> opt = OPT_DRY_RUN"
    and "force_wait g1 = force_wait g"
    and "opt \<noteq> OPT_WAIT \<and> opt \<noteq> OPT_NO_WAIT \<longrightarrow> wait_type g1 = wait_type g"
    and "opt \<noteq> OPT_TIMEOUT \<longrightarrow> timeout g1 = timeout g"
    and "table_style g1 = table_style g"
    and "db g1 = db g" and "the_idl g1 = the_idl g" and "stdout g1 = stdout g"
    and "vlog g1 = vlog g" and "vlog_options g1 = vlog_options g"
  using assms
  by (cases opt; auto simp: handle_main_loop_option_def Let_def split: if_splits prod.splits)+

text \<open>
  One turn of the loop of \<^verbatim>\<open>server_parse_options\<close> that does not end in an error: the state
  and the local options with which the loop goes on, and what the option has changed.
\<close>

lemma server_parse_options_step:
  assumes "server_parse_options L (step # rest) local_options g = (None, local_options2, g2)"
  shows "\<exists>local_options1 g1.
           server_parse_options L rest local_options1 g1 = (None, local_options2, g2)
         \<and> (oneline g1 \<longleftrightarrow> oneline g \<or> opt_code step = OPT_ONELINE)
         \<and> (dry_run g1 \<longleftrightarrow> dry_run g \<or> opt_code step = OPT_DRY_RUN)
         \<and> force_wait g1 = force_wait g
         \<and> (opt_code step \<noteq> OPT_WAIT \<and> opt_code step \<noteq> OPT_NO_WAIT \<longrightarrow>
              wait_type g1 = wait_type g)
         \<and> (opt_code step \<noteq> OPT_TIMEOUT \<longrightarrow> timeout g1 = timeout g)
         \<and> (opt_code step \<noteq> OPT_TABLE \<longrightarrow> table_style g1 = table_style g)
         \<and> db g1 = db g \<and> the_idl g1 = the_idl g \<and> stdout g1 = stdout g \<and> vlog g1 = vlog g
         \<and> vlog_options g1
             = vlog_options g
               @ (if opt_code step = OPT_VLOG then [(opt_name step, opt_arg step)] else [])"
proof -
  obtain error handled h where
    h: "handle_main_loop_option L (opt_code step) (opt_arg step) g = (error, handled, h)"
    by (metis prod_cases3)
  have e: "error = None"
    using assms by (auto simp: h split: if_splits)
  note eff = handle_main_loop_option_effect [OF h [unfolded e]]
  note main = assms [unfolded server_parse_options.simps Let_def h prod.case e]
  show ?thesis
  proof (cases handled)
    case True
    then have "server_parse_options L rest local_options h = (None, local_options2, g2)"
      using main by simp
    moreover have "opt_code step \<noteq> OPT_VLOG" "opt_code step \<noteq> OPT_TABLE"
      using True eff(1) by auto
    ultimately show ?thesis
      using eff(2-12) by (intro exI [of _ local_options] exI [of _ h]) simp
  next
    case False
    then have nm: "opt_code step \<noteq> OPT_ONELINE" "opt_code step \<noteq> OPT_DRY_RUN"
      "opt_code step \<noteq> OPT_WAIT" "opt_code step \<noteq> OPT_NO_WAIT" "opt_code step \<noteq> OPT_TIMEOUT"
      using eff(1) by auto
    obtain error1 local_options1 where
      a: "add_local_option (opt_name step) (opt_arg step) local_options
            = (error1, local_options1)"
      by (cases "add_local_option (opt_name step) (opt_arg step) local_options")
    consider (loc) "opt_code step = OPT_LOCAL"
      | (vl) "opt_code step = OPT_VLOG"
      | (tab) "opt_code step = OPT_TABLE"
      | (other) "opt_code step \<noteq> OPT_LOCAL" "opt_code step \<noteq> OPT_VLOG"
                "opt_code step \<noteq> OPT_TABLE"
      by blast
    then show ?thesis
    proof cases
      case loc
      then have "server_parse_options L rest local_options1 h = (None, local_options2, g2)"
        using main False by (auto simp: a split: if_splits)
      then show ?thesis
        using eff(2-12) loc by (intro exI [of _ local_options1] exI [of _ h]) simp
    next
      case vl
      let ?h = "h\<lparr>vlog_options := vlog_options h @ [(opt_name step, opt_arg step)]\<rparr>"
      have "server_parse_options L rest local_options ?h = (None, local_options2, g2)"
        using main False vl by simp
      then show ?thesis
        using eff(2-12) vl by (intro exI [of _ local_options] exI [of _ ?h]) simp
    next
      case tab
      let ?h = "h\<lparr>table_style := table_option L step (table_style h)\<rparr>"
      have "server_parse_options L rest local_options ?h = (None, local_options2, g2)"
        using main False tab by simp
      then show ?thesis
        using eff(2-12) tab by (intro exI [of _ local_options] exI [of _ ?h]) simp
    next
      case other
      have "server_parse_options L rest local_options h = (None, local_options2, g2)"
        using main False other nm
        by (cases "opt_code step") (auto split: if_splits)
      then show ?thesis
        using eff(2-12) other by (intro exI [of _ local_options] exI [of _ h]) simp
    qed
  qed
qed

lemma server_parse_options_effect:
  assumes "server_parse_options L steps local_options g = (None, local_options2, g2)"
  shows "(oneline g2 \<longleftrightarrow> oneline g \<or> OPT_ONELINE \<in> opt_code ` set steps)
       \<and> (dry_run g2 \<longleftrightarrow> dry_run g \<or> OPT_DRY_RUN \<in> opt_code ` set steps)
       \<and> force_wait g2 = force_wait g
       \<and> ((\<forall>step \<in> set steps. opt_code step \<noteq> OPT_WAIT \<and> opt_code step \<noteq> OPT_NO_WAIT) \<longrightarrow>
            wait_type g2 = wait_type g)
       \<and> ((\<forall>step \<in> set steps. opt_code step \<noteq> OPT_TIMEOUT) \<longrightarrow> timeout g2 = timeout g)
       \<and> ((\<forall>step \<in> set steps. opt_code step \<noteq> OPT_TABLE) \<longrightarrow> table_style g2 = table_style g)
       \<and> db g2 = db g \<and> the_idl g2 = the_idl g \<and> stdout g2 = stdout g \<and> vlog g2 = vlog g
       \<and> vlog_options g2
           = vlog_options g
             @ map (\<lambda>step. (opt_name step, opt_arg step))
                 (filter (\<lambda>step. opt_code step = OPT_VLOG) steps)"
  using assms
proof (induction steps arbitrary: local_options g)
  case Nil
  then show ?case by simp
next
  case (Cons step rest)
  from server_parse_options_step [OF Cons.prems] obtain local_options1 g1 where
    rec: "server_parse_options L rest local_options1 g1 = (None, local_options2, g2)"
    and eff: "oneline g1 \<longleftrightarrow> oneline g \<or> opt_code step = OPT_ONELINE"
      "dry_run g1 \<longleftrightarrow> dry_run g \<or> opt_code step = OPT_DRY_RUN"
      "force_wait g1 = force_wait g"
      "opt_code step \<noteq> OPT_WAIT \<and> opt_code step \<noteq> OPT_NO_WAIT \<longrightarrow> wait_type g1 = wait_type g"
      "opt_code step \<noteq> OPT_TIMEOUT \<longrightarrow> timeout g1 = timeout g"
      "opt_code step \<noteq> OPT_TABLE \<longrightarrow> table_style g1 = table_style g"
      "db g1 = db g" "the_idl g1 = the_idl g" "stdout g1 = stdout g" "vlog g1 = vlog g"
      "vlog_options g1
         = vlog_options g
           @ (if opt_code step = OPT_VLOG then [(opt_name step, opt_arg step)] else [])"
    by blast
  note IH = Cons.IH [OF rec]
  have 1: "oneline g2 \<longleftrightarrow> oneline g \<or> OPT_ONELINE \<in> opt_code ` set (step # rest)"
    using IH eff(1) by auto
  have 2: "dry_run g2 \<longleftrightarrow> dry_run g \<or> OPT_DRY_RUN \<in> opt_code ` set (step # rest)"
    using IH eff(2) by auto
  have 3: "force_wait g2 = force_wait g"
    using IH eff(3) by simp
  have 4: "(\<forall>step \<in> set (step # rest). opt_code step \<noteq> OPT_WAIT \<and> opt_code step \<noteq> OPT_NO_WAIT)
             \<longrightarrow> wait_type g2 = wait_type g"
    using IH eff(4) by simp
  have 5: "(\<forall>step \<in> set (step # rest). opt_code step \<noteq> OPT_TIMEOUT) \<longrightarrow> timeout g2 = timeout g"
    using IH eff(5) by simp
  have 6: "(\<forall>step \<in> set (step # rest). opt_code step \<noteq> OPT_TABLE)
             \<longrightarrow> table_style g2 = table_style g"
    using IH eff(6) by simp
  have 7: "db g2 = db g \<and> the_idl g2 = the_idl g \<and> stdout g2 = stdout g \<and> vlog g2 = vlog g"
    using IH eff(7-10) by simp
  have 8: "vlog_options g2
           = vlog_options g
             @ map (\<lambda>step. (opt_name step, opt_arg step))
                 (filter (\<lambda>step. opt_code step = OPT_VLOG) (step # rest))"
    using IH eff(11) by simp
  show ?case
    using 1 2 3 4 5 6 7 8 by blast
qed

text \<open>
  Claim C8, as amended. The first thing \<^verbatim>\<open>server_cmd_run\<close> does with the global state is to
  set \<^verbatim>\<open>oneline\<close>, \<^verbatim>\<open>dry_run\<close>, \<^verbatim>\<open>wait_type\<close>, \<^verbatim>\<open>force_wait\<close>, \<^verbatim>\<open>timeout\<close> and \<^verbatim>\<open>table_style\<close>
  to their defaults, whatever they held; the options of the request are parsed from there,
  and the commands of the request run in the state that this parse leaves. In that state
  \<^verbatim>\<open>oneline\<close> and \<^verbatim>\<open>dry_run\<close> are set exactly when the request has the option, \<^verbatim>\<open>force_wait\<close>
  is unset, and the wait type, the timeout and the table style are at their defaults
  unless the request has an option for them: no value of the six that an earlier request
  chose is left. The parse gives the same error, local options and six variables from any
  two states in which a request can arrive, and what a request does is the same whatever
  the six variables hold when it arrives. The logging options are not reset: a logging
  option of a request is added to the logging configuration of the process, and the
  commands run with the logging options of all earlier requests and its own.
\<close>

theorem server_cmd_run_resets:
  fixes E :: "('m, 't, 's) ovsdb_env"
  assumes "getopt_long L argv = (steps, rest)"
    and "server_parse_options L steps [] (reset_global_state E g) = (error, local_options, g2)"
  shows "global_settings (reset_global_state E g)
           = (False, False, NBCTL_WAIT_NONE, False, 0, table_style_default E)
   \<and> (error \<noteq> None \<longrightarrow>
        server_cmd_run E L argv g = Some (RETURN (REPLY_ERROR (the error), g2)))
   \<and> (error = None \<longrightarrow>
        server_cmd_run E L argv g
          = server_cmd_run_commands E L (process_escape_args L argv) rest local_options g2
        \<and> (oneline g2 \<longleftrightarrow> OPT_ONELINE \<in> opt_code ` set steps)
        \<and> (dry_run g2 \<longleftrightarrow> OPT_DRY_RUN \<in> opt_code ` set steps)
        \<and> \<not> force_wait g2
        \<and> ((\<forall>step \<in> set steps. opt_code step \<noteq> OPT_WAIT \<and> opt_code step \<noteq> OPT_NO_WAIT) \<longrightarrow>
             wait_type g2 = NBCTL_WAIT_NONE)
        \<and> ((\<forall>step \<in> set steps. opt_code step \<noteq> OPT_TIMEOUT) \<longrightarrow> timeout g2 = 0)
        \<and> ((\<forall>step \<in> set steps. opt_code step \<noteq> OPT_TABLE) \<longrightarrow>
             table_style g2 = table_style_default E)
        \<and> db g2 = db g \<and> the_idl g2 = the_idl g \<and> stdout g2 = stdout g \<and> vlog g2 = vlog g
        \<and> vlog_options g2
            = vlog_options g
              @ map (\<lambda>step. (opt_name step, opt_arg step))
                  (filter (\<lambda>step. opt_code step = OPT_VLOG) steps))
   \<and> (\<exists>h2. server_parse_options L steps [] (reset_global_state E h) = (error, local_options, h2)
          \<and> global_settings h2 = global_settings g2)
   \<and> server_cmd_run E L argv (with_settings v g) = server_cmd_run E L argv g"
proof -
  have A: "global_settings (reset_global_state E g)
             = (False, False, NBCTL_WAIT_NONE, False, 0, table_style_default E)"
    by (rule reset_global_state_settings)
  have run: "server_cmd_run E L argv g
      = (if error \<noteq> None then Some (RETURN (REPLY_ERROR (the error), g2))
         else server_cmd_run_commands E L (process_escape_args L argv) rest local_options g2)"
    unfolding server_cmd_run_def Let_def assms prod.case ..
  have B: "server_cmd_run E L argv g = Some (RETURN (REPLY_ERROR (the error), g2))"
    if "error \<noteq> None"
    using that by (simp add: run)
  have C: "server_cmd_run E L argv g
          = server_cmd_run_commands E L (process_escape_args L argv) rest local_options g2
        \<and> (oneline g2 \<longleftrightarrow> OPT_ONELINE \<in> opt_code ` set steps)
        \<and> (dry_run g2 \<longleftrightarrow> OPT_DRY_RUN \<in> opt_code ` set steps)
        \<and> \<not> force_wait g2
        \<and> ((\<forall>step \<in> set steps. opt_code step \<noteq> OPT_WAIT \<and> opt_code step \<noteq> OPT_NO_WAIT) \<longrightarrow>
             wait_type g2 = NBCTL_WAIT_NONE)
        \<and> ((\<forall>step \<in> set steps. opt_code step \<noteq> OPT_TIMEOUT) \<longrightarrow> timeout g2 = 0)
        \<and> ((\<forall>step \<in> set steps. opt_code step \<noteq> OPT_TABLE) \<longrightarrow>
             table_style g2 = table_style_default E)
        \<and> db g2 = db g \<and> the_idl g2 = the_idl g \<and> stdout g2 = stdout g \<and> vlog g2 = vlog g
        \<and> vlog_options g2
            = vlog_options g
              @ map (\<lambda>step. (opt_name step, opt_arg step))
                  (filter (\<lambda>step. opt_code step = OPT_VLOG) steps)"
    if e: "error = None"
  proof -
    have r: "oneline (reset_global_state E g) = False" "dry_run (reset_global_state E g) = False"
      "force_wait (reset_global_state E g) = False"
      "wait_type (reset_global_state E g) = NBCTL_WAIT_NONE"
      "timeout (reset_global_state E g) = 0"
      "table_style (reset_global_state E g) = table_style_default E"
      "db (reset_global_state E g) = db g" "the_idl (reset_global_state E g) = the_idl g"
      "stdout (reset_global_state E g) = stdout g" "vlog (reset_global_state E g) = vlog g"
      "vlog_options (reset_global_state E g) = vlog_options g"
      by (simp_all add: reset_global_state_def)
    note eff = server_parse_options_effect [OF assms(2) [unfolded e], unfolded r]
    have "server_cmd_run E L argv g
          = server_cmd_run_commands E L (process_escape_args L argv) rest local_options g2"
      using e by (simp add: run)
    with eff show ?thesis
      by simp
  qed
  have "global_settings (reset_global_state E h) = global_settings (reset_global_state E g)"
    by (simp only: reset_global_state_settings)
  from server_parse_options_settings [OF this, of L steps "[]"]
  have D: "\<exists>h2. server_parse_options L steps [] (reset_global_state E h)
                  = (error, local_options, h2)
          \<and> global_settings h2 = global_settings g2"
    by (auto simp: assms(2))
  have F: "server_cmd_run E L argv (with_settings v g) = server_cmd_run E L argv g"
    unfolding server_cmd_run_def reset_global_state_with_settings ..
  show ?thesis
    using A B C D F by blast
qed

text \<open>
  The example: a daemon that has just started gets the request
  \<^verbatim>\<open>--wait=sb --oneline add\<close> and then the request \<^verbatim>\<open>add\<close>. The commands of the first run
  with \<^verbatim>\<open>oneline\<close> set and the wait type \<^verbatim>\<open>sb\<close>, its reply is on one line, and it leaves the
  two variables as its options have set them; the commands of the second run with both at
  their defaults, and its reply is on two lines. A request with an option that is not known
  is answered with the error of the parse.
\<close>

theorem server_cmd_run_resets_witness:
  "server_cmd_run (example_env (\<lambda>idl. 1) TXN_SUCCESS (\<lambda>idl. 8) (\<lambda>idl. False)) example_cmdl
      [''run'', ''--wait=sb'', ''--oneline'', ''add''] (example_nbctl NBCTL_WAIT_NONE)
     = Some (RETURN
         (REPLY [CHR ''a'', backslash, CHR ''n'', CHR ''b'', newline],
          (example_nbctl NBCTL_WAIT_SB)
            \<lparr>oneline := True,
             the_idl :=
               [IDL_ADD_TABLE_NB_GLOBAL, IDL_ADD_COLUMN NB_GLOBAL_COL_SB_CFG, IDL_RUN,
                TXN_CREATE,
                TXN_COMMIT_BLOCK
                  \<lparr>txn_dry_run = False,
                   txn_comment = ''ovs-nbctl: run --wait=sb --oneline add'',
                   txn_ops = [COMMAND_OP [CHR ''a'', newline, CHR ''b'']],
                   txn_increment =
                     Some (ROW_OF_SNAPSHOT \<lparr>nb_cfg = 7, sb_cfg = 8, hv_cfg = 0\<rparr>,
                           NB_GLOBAL_COL_NB_CFG, False)\<rparr>,
                IDL_ENABLE_RECONNECT, IDL_RUN, TXN_DESTROY],
             stdout := [CHR ''a'', backslash, CHR ''n'', CHR ''b'', newline],
             vlog := [(VLL_INFO, ''Running command run --wait=sb --oneline add'')]\<rparr>))
   \<and> oneline ((example_nbctl NBCTL_WAIT_SB)\<lparr>oneline := True\<rparr>)
   \<and> timeout ((example_nbctl NBCTL_WAIT_SB)\<lparr>oneline := True\<rparr>) = 0
   \<and> server_cmd_run (example_env (\<lambda>idl. 1) TXN_SUCCESS (\<lambda>idl. 8) (\<lambda>idl. False)) example_cmdl
        [''run'', ''add'']
        ((example_nbctl NBCTL_WAIT_SB)
            \<lparr>oneline := True,
             the_idl :=
               [IDL_ADD_TABLE_NB_GLOBAL, IDL_ADD_COLUMN NB_GLOBAL_COL_SB_CFG, IDL_RUN,
                TXN_CREATE,
                TXN_COMMIT_BLOCK
                  \<lparr>txn_dry_run = False,
                   txn_comment = ''ovs-nbctl: run --wait=sb --oneline add'',
                   txn_ops = [COMMAND_OP [CHR ''a'', newline, CHR ''b'']],
                   txn_increment =
                     Some (ROW_OF_SNAPSHOT \<lparr>nb_cfg = 7, sb_cfg = 8, hv_cfg = 0\<rparr>,
                           NB_GLOBAL_COL_NB_CFG, False)\<rparr>,
                IDL_ENABLE_RECONNECT, IDL_RUN, TXN_DESTROY],
             stdout := [CHR ''a'', backslash, CHR ''n'', CHR ''b'', newline],
             vlog := [(VLL_INFO, ''Running command run --wait=sb --oneline add'')]\<rparr>)
     = Some (RETURN
         (REPLY [CHR ''a'', newline, CHR ''b'', newline],
          (example_nbctl NBCTL_WAIT_NONE)
            \<lparr>the_idl :=
               [IDL_ADD_TABLE_NB_GLOBAL, IDL_ADD_COLUMN NB_GLOBAL_COL_SB_CFG, IDL_RUN,
                TXN_CREATE,
                TXN_COMMIT_BLOCK
                  \<lparr>txn_dry_run = False,
                   txn_comment = ''ovs-nbctl: run --wait=sb --oneline add'',
                   txn_ops = [COMMAND_OP [CHR ''a'', newline, CHR ''b'']],
                   txn_increment =
                     Some (ROW_OF_SNAPSHOT \<lparr>nb_cfg = 7, sb_cfg = 8, hv_cfg = 0\<rparr>,
                           NB_GLOBAL_COL_NB_CFG, False)\<rparr>,
                IDL_ENABLE_RECONNECT, IDL_RUN, TXN_DESTROY,
                IDL_ADD_TABLE_NB_GLOBAL, IDL_RUN, TXN_CREATE,
                TXN_COMMIT_BLOCK
                  \<lparr>txn_dry_run = False, txn_comment = ''ovs-nbctl: run add'',
                   txn_ops = [COMMAND_OP [CHR ''a'', newline, CHR ''b'']],
                   txn_increment = None\<rparr>,
                TXN_DESTROY],
             stdout := [CHR ''a'', backslash, CHR ''n'', CHR ''b'', newline,
                        CHR ''a'', newline, CHR ''b'', newline],
             vlog := [(VLL_INFO, ''Running command run --wait=sb --oneline add''),
                      (VLL_INFO, ''Running command run add'')]\<rparr>))
   \<and> wait_type
        ((example_nbctl NBCTL_WAIT_NONE)
            \<lparr>the_idl :=
               [IDL_ADD_TABLE_NB_GLOBAL, IDL_ADD_COLUMN NB_GLOBAL_COL_SB_CFG, IDL_RUN,
                TXN_CREATE,
                TXN_COMMIT_BLOCK
                  \<lparr>txn_dry_run = False,
                   txn_comment = ''ovs-nbctl: run --wait=sb --oneline add'',
                   txn_ops = [COMMAND_OP [CHR ''a'', newline, CHR ''b'']],
                   txn_increment =
                     Some (ROW_OF_SNAPSHOT \<lparr>nb_cfg = 7, sb_cfg = 8, hv_cfg = 0\<rparr>,
                           NB_GLOBAL_COL_NB_CFG, False)\<rparr>,
                IDL_ENABLE_RECONNECT, IDL_RUN, TXN_DESTROY],
             stdout := [CHR ''a'', backslash, CHR ''n'', CHR ''b'', newline],
             vlog := [(VLL_INFO, ''Running command run --wait=sb --oneline add'')]\<rparr>)
       = NBCTL_WAIT_NONE
   \<and> server_cmd_run (example_env (\<lambda>idl. 1) TXN_SUCCESS (\<lambda>idl. 8) (\<lambda>idl. False)) example_cmdl
        [''run'', ''--bogus'', ''add''] (example_nbctl NBCTL_WAIT_NONE)
     = Some (RETURN (REPLY_ERROR (''unrecognized option '' @ [CHR 0x27] @ ''--bogus'' @ [CHR 0x27]), example_nbctl NBCTL_WAIT_NONE))"
proof -
  let ?E = "example_env (\<lambda>idl. 1) TXN_SUCCESS (\<lambda>idl. 8) (\<lambda>idl. False)"
  let ?idl1 = "[IDL_ADD_TABLE_NB_GLOBAL, IDL_ADD_COLUMN NB_GLOBAL_COL_SB_CFG, IDL_RUN,
                TXN_CREATE,
                TXN_COMMIT_BLOCK
                  \<lparr>txn_dry_run = False,
                   txn_comment = ''ovs-nbctl: run --wait=sb --oneline add'',
                   txn_ops = [COMMAND_OP [CHR ''a'', newline, CHR ''b'']],
                   txn_increment =
                     Some (ROW_OF_SNAPSHOT \<lparr>nb_cfg = 7, sb_cfg = 8, hv_cfg = 0\<rparr>,
                           NB_GLOBAL_COL_NB_CFG, False)\<rparr>,
                IDL_ENABLE_RECONNECT, IDL_RUN, TXN_DESTROY] :: string idl_call list"
  let ?req1 = "[''run'', ''--wait=sb'', ''--oneline'', ''add'']"
  let ?req2 = "[''run'', ''add'']"
  let ?steps1 = "[example_getopt ''--wait=sb'', example_getopt ''--oneline'']"
  let ?g0 = "example_nbctl NBCTL_WAIT_NONE"
  let ?p1 = "(example_nbctl NBCTL_WAIT_SB)\<lparr>oneline := True\<rparr>"
  let ?g1 = "(example_nbctl NBCTL_WAIT_SB)
            \<lparr>oneline := True, the_idl := ?idl1,
             stdout := [CHR ''a'', backslash, CHR ''n'', CHR ''b'', newline],
             vlog := [(VLL_INFO, ''Running command run --wait=sb --oneline add'')]\<rparr>"
  let ?p2 = "?g0\<lparr>the_idl := ?idl1,
             stdout := [CHR ''a'', backslash, CHR ''n'', CHR ''b'', newline],
             vlog := [(VLL_INFO, ''Running command run --wait=sb --oneline add'')]\<rparr>"
  have opt1: "getopt_long example_cmdl ?req1 = (?steps1, [''add''])"
    and opt2: "getopt_long example_cmdl ?req2 = ([], [''add''])"
    by (simp_all add: example_cmdl_def)
  have codes: "opt_code (example_getopt ''--wait=sb'') = OPT_WAIT"
    "opt_arg (example_getopt ''--wait=sb'') = Some ''sb''"
    "opt_code (example_getopt ''--oneline'') = OPT_ONELINE"
    by (simp_all add: example_getopt_def Let_def)
  have parse1: "server_parse_options example_cmdl ?steps1 [] (reset_global_state ?E ?g0)
                  = (None, [], ?p1)"
    by (simp add: codes handle_main_loop_option_def reset_global_state_def example_defs)
  have parse2: "server_parse_options example_cmdl [] [] (reset_global_state ?E ?g1)
                  = (None, [], ?p2)"
    by (simp add: reset_global_state_def example_defs)
  note t1 = server_cmd_run_resets [OF opt1 parse1]
  note t2 = server_cmd_run_resets [OF opt2 parse2]
  have args: "process_escape_args example_cmdl ?req1 = ''run --wait=sb --oneline add''"
    "process_escape_args example_cmdl ?req2 = ''run add''"
    by (simp_all add: example_cmdl_def)
  from t1 have "server_cmd_run ?E example_cmdl ?req1 ?g0
      = server_cmd_run_commands ?E example_cmdl (process_escape_args example_cmdl ?req1)
          [''add''] [] ?p1"
    by blast
  also have "\<dots> = Some (RETURN (REPLY [CHR ''a'', backslash, CHR ''n'', CHR ''b'', newline], ?g1))"
    unfolding args
    by (simp add: server_cmd_run_commands_def example_cmdl_def
          run_prerequisites_def ctl_might_write_to_db_def
          main_loop_defs main_loop_iter.simps do_nbctl_defs example_defs Let_def
          do_nbctl_wait_reached cfg_reached_def cur_cfg_def word_sle_eq
          oneline_format_def oneline_format_loop.simps ds_chomp_def ds_put_char_def
          ds_put_cstr_def)
  finally have first: "server_cmd_run ?E example_cmdl ?req1 ?g0
      = Some (RETURN (REPLY [CHR ''a'', backslash, CHR ''n'', CHR ''b'', newline], ?g1))" .
  have "OPT_ONELINE \<in> opt_code ` set ?steps1"
    "\<forall>step \<in> set ?steps1. opt_code step \<noteq> OPT_TIMEOUT"
    by (simp_all add: codes)
  with t1 have set1: "oneline ?p1" "timeout ?p1 = 0"
    by blast+
  from t2 have "server_cmd_run ?E example_cmdl ?req2 ?g1
      = server_cmd_run_commands ?E example_cmdl (process_escape_args example_cmdl ?req2)
          [''add''] [] ?p2"
    by blast
  also have "\<dots> = Some (RETURN
         (REPLY [CHR ''a'', newline, CHR ''b'', newline],
          ?g0\<lparr>the_idl := ?idl1 @
               [IDL_ADD_TABLE_NB_GLOBAL, IDL_RUN, TXN_CREATE,
                TXN_COMMIT_BLOCK
                  \<lparr>txn_dry_run = False, txn_comment = ''ovs-nbctl: run add'',
                   txn_ops = [COMMAND_OP [CHR ''a'', newline, CHR ''b'']],
                   txn_increment = None\<rparr>,
                TXN_DESTROY],
             stdout := [CHR ''a'', backslash, CHR ''n'', CHR ''b'', newline,
                        CHR ''a'', newline, CHR ''b'', newline],
             vlog := [(VLL_INFO, ''Running command run --wait=sb --oneline add''),
                      (VLL_INFO, ''Running command run add'')]\<rparr>))"
    unfolding args
    by (simp add: server_cmd_run_commands_def example_cmdl_def
          run_prerequisites_def ctl_might_write_to_db_def
          main_loop_defs main_loop_iter.simps do_nbctl_defs example_defs Let_def
          ds_put_cstr_def)
  finally have second: "server_cmd_run ?E example_cmdl ?req2 ?g1
      = Some (RETURN
         (REPLY [CHR ''a'', newline, CHR ''b'', newline],
          ?g0\<lparr>the_idl := ?idl1 @
               [IDL_ADD_TABLE_NB_GLOBAL, IDL_RUN, TXN_CREATE,
                TXN_COMMIT_BLOCK
                  \<lparr>txn_dry_run = False, txn_comment = ''ovs-nbctl: run add'',
                   txn_ops = [COMMAND_OP [CHR ''a'', newline, CHR ''b'']],
                   txn_increment = None\<rparr>,
                TXN_DESTROY],
             stdout := [CHR ''a'', backslash, CHR ''n'', CHR ''b'', newline,
                        CHR ''a'', newline, CHR ''b'', newline],
             vlog := [(VLL_INFO, ''Running command run --wait=sb --oneline add''),
                      (VLL_INFO, ''Running command run add'')]\<rparr>))" .
  have none2: "\<forall>step \<in> set ([] :: getopt_step list).
                 opt_code step \<noteq> OPT_WAIT \<and> opt_code step \<noteq> OPT_NO_WAIT"
    by simp
  with t2 have set2: "wait_type ?p2 = NBCTL_WAIT_NONE"
    by blast
  have opt3: "getopt_long example_cmdl [''run'', ''--bogus'', ''add'']
                = ([example_getopt ''--bogus''], [''add''])"
    by (simp add: example_cmdl_def)
  have parse3: "server_parse_options example_cmdl [example_getopt ''--bogus''] []
                  (reset_global_state ?E ?g0)
                  = (Some (''unrecognized option '' @ [CHR 0x27] @ ''--bogus'' @ [CHR 0x27]), [], ?g0)"
    by (simp add: example_getopt_def Let_def handle_main_loop_option_def reset_global_state_def
          example_defs)
  from server_cmd_run_resets [OF opt3 parse3]
  have third: "server_cmd_run ?E example_cmdl [''run'', ''--bogus'', ''add''] ?g0
                 = Some (RETURN (REPLY_ERROR (''unrecognized option '' @ [CHR 0x27] @ ''--bogus'' @ [CHR 0x27]), ?g0))"
    by simp
  show ?thesis
    unfolding first second third using set1 set2 by simp
qed

text \<open>
  The claim as it was stated fails for the logging options. The first request has the
  option \<^verbatim>\<open>--verbose=dbg\<close> and the second has no option; the second request ends with the
  logging option of the first still in the logging configuration of the process, which
  no statement of \<^verbatim>\<open>server_cmd_run\<close> has touched.
\<close>

theorem server_cmd_run_resets_counterexample:
  "server_cmd_run (example_env (\<lambda>idl. 1) TXN_SUCCESS (\<lambda>idl. 8) (\<lambda>idl. False)) example_cmdl
      [''run'', ''--verbose=dbg'', ''add''] (example_nbctl NBCTL_WAIT_NONE)
     = Some (RETURN
         (REPLY [CHR ''a'', newline, CHR ''b'', newline],
          (example_nbctl NBCTL_WAIT_NONE)
            \<lparr>the_idl :=
               [IDL_ADD_TABLE_NB_GLOBAL, IDL_RUN, TXN_CREATE,
                TXN_COMMIT_BLOCK
                  \<lparr>txn_dry_run = False, txn_comment = ''ovs-nbctl: run --verbose=dbg add'',
                   txn_ops = [COMMAND_OP [CHR ''a'', newline, CHR ''b'']],
                   txn_increment = None\<rparr>,
                TXN_DESTROY],
             stdout := [CHR ''a'', newline, CHR ''b'', newline],
             vlog := [(VLL_INFO, ''Running command run --verbose=dbg add'')],
             vlog_options := [(''verbose'', Some ''dbg'')]\<rparr>))
   \<and> server_cmd_run (example_env (\<lambda>idl. 1) TXN_SUCCESS (\<lambda>idl. 8) (\<lambda>idl. False)) example_cmdl
        [''run'', ''add'']
        ((example_nbctl NBCTL_WAIT_NONE)
            \<lparr>the_idl :=
               [IDL_ADD_TABLE_NB_GLOBAL, IDL_RUN, TXN_CREATE,
                TXN_COMMIT_BLOCK
                  \<lparr>txn_dry_run = False, txn_comment = ''ovs-nbctl: run --verbose=dbg add'',
                   txn_ops = [COMMAND_OP [CHR ''a'', newline, CHR ''b'']],
                   txn_increment = None\<rparr>,
                TXN_DESTROY],
             stdout := [CHR ''a'', newline, CHR ''b'', newline],
             vlog := [(VLL_INFO, ''Running command run --verbose=dbg add'')],
             vlog_options := [(''verbose'', Some ''dbg'')]\<rparr>)
     = Some (RETURN
         (REPLY [CHR ''a'', newline, CHR ''b'', newline],
          (example_nbctl NBCTL_WAIT_NONE)
            \<lparr>the_idl :=
               [IDL_ADD_TABLE_NB_GLOBAL, IDL_RUN, TXN_CREATE,
                TXN_COMMIT_BLOCK
                  \<lparr>txn_dry_run = False, txn_comment = ''ovs-nbctl: run --verbose=dbg add'',
                   txn_ops = [COMMAND_OP [CHR ''a'', newline, CHR ''b'']],
                   txn_increment = None\<rparr>,
                TXN_DESTROY, IDL_ADD_TABLE_NB_GLOBAL, IDL_RUN, TXN_CREATE,
                TXN_COMMIT_BLOCK
                  \<lparr>txn_dry_run = False, txn_comment = ''ovs-nbctl: run add'',
                   txn_ops = [COMMAND_OP [CHR ''a'', newline, CHR ''b'']],
                   txn_increment = None\<rparr>,
                TXN_DESTROY],
             stdout := [CHR ''a'', newline, CHR ''b'', newline, CHR ''a'', newline, CHR ''b'',
                        newline],
             vlog := [(VLL_INFO, ''Running command run --verbose=dbg add''),
                      (VLL_INFO, ''Running command run add'')],
             vlog_options := [(''verbose'', Some ''dbg'')]\<rparr>))"
proof -
  have codes: "opt_code (example_getopt ''--verbose=dbg'') = OPT_VLOG"
    "opt_arg (example_getopt ''--verbose=dbg'') = Some ''dbg''"
    "opt_name (example_getopt ''--verbose=dbg'') = ''verbose''"
    by (simp_all add: example_getopt_def Let_def)
  show ?thesis
    by (simp add: server_cmd_run_def server_cmd_run_commands_def reset_global_state_def
          example_cmdl_def codes handle_main_loop_option_def run_prerequisites_def
          ctl_might_write_to_db_def main_loop_defs main_loop_iter.simps do_nbctl_defs
          example_defs Let_def ds_put_cstr_def)
qed

end
